theory Spec2Isabelle
  imports Complex_Main
begin

section \<open>JavaScript strings\<close>

text \<open>
  Strings are lists of 8-bit characters. The payroll vocabulary (labor rates, pay types,
  cost codes, report lines) is ASCII; case conversion is modelled on the ASCII letters and
  leaves every other character as it is.
\<close>

definition toUpperChar :: "char \<Rightarrow> char" where
  "toUpperChar c =
     (case map_of (zip ''abcdefghijklmnopqrstuvwxyz'' ''ABCDEFGHIJKLMNOPQRSTUVWXYZ'') c of
        Some u \<Rightarrow> u
      | None \<Rightarrow> c)"

definition toLowerChar :: "char \<Rightarrow> char" where
  "toLowerChar c =
     (case map_of (zip ''ABCDEFGHIJKLMNOPQRSTUVWXYZ'' ''abcdefghijklmnopqrstuvwxyz'') c of
        Some l \<Rightarrow> l
      | None \<Rightarrow> c)"

definition toUpperCase :: "string \<Rightarrow> string" where
  "toUpperCase s = map toUpperChar s"

definition toLowerCase :: "string \<Rightarrow> string" where
  "toLowerCase s = map toLowerChar s"

fun startsWith :: "string \<Rightarrow> string \<Rightarrow> bool" where
  "startsWith s [] = True"
| "startsWith [] (p # ps) = False"
| "startsWith (c # cs) (p # ps) = (c = p \<and> startsWith cs ps)"

fun includesStr :: "string \<Rightarrow> string \<Rightarrow> bool" where
  "includesStr [] sub = (sub = [])"
| "includesStr (c # cs) sub = (startsWith (c # cs) sub \<or> includesStr cs sub)"

definition endsWith :: "string \<Rightarrow> string \<Rightarrow> bool" where
  "endsWith s suf = startsWith (rev s) (rev suf)"

fun join :: "string \<Rightarrow> string list \<Rightarrow> string" where
  "join sep [] = []"
| "join sep [x] = x"
| "join sep (x # y # ys) = x @ sep @ join sep (y # ys)"

section \<open>Calendar: the dates of the Sunday rule\<close>

text \<open>
  Modelled from the spec: the date library behind rule 4, which is not part of the
  repository. The rule reads the weekday of an entry through
  \<^verbatim>\<open>moment(entry.date, 'MM/DD/YYYY')\<close>, then \<^verbatim>\<open>isValid()\<close> and \<^verbatim>\<open>day()\<close>
  (0 is Sunday); the spec has it compute the day of the week of the entry's date and
  skip the rule on a malformed date. The model covers the dates the parser emits, one or
  two digits for month and day and four for the year, separated by slashes: such a
  string is valid when the month is 1..12 and the day exists in that month of the
  proleptic Gregorian calendar. Any other string is taken as invalid.
\<close>

definition isDigit :: "char \<Rightarrow> bool" where
  "isDigit c = (c \<in> set ''0123456789'')"

definition digitVal :: "char \<Rightarrow> nat" where
  "digitVal c =
     (case map_of (zip ''0123456789'' [0, 1, 2, 3, 4, 5, 6, 7, 8, 9]) c of
        Some n \<Rightarrow> n
      | None \<Rightarrow> 0)"

fun parseNat :: "nat \<Rightarrow> string \<Rightarrow> nat" where
  "parseNat acc [] = acc"
| "parseNat acc (c # cs) = parseNat (10 * acc + digitVal c) cs"

definition isLeapYear :: "nat \<Rightarrow> bool" where
  "isLeapYear y = ((y mod 4 = 0 \<and> y mod 100 \<noteq> 0) \<or> y mod 400 = 0)"

definition daysInMonth :: "nat \<Rightarrow> nat \<Rightarrow> nat" where
  "daysInMonth y m =
     (if m = 2 then (if isLeapYear y then 29 else 28)
      else if m = 4 \<or> m = 6 \<or> m = 9 \<or> m = 11 then 30 else 31)"

text \<open>The three numeric fields of a date string, when it has the shape above.\<close>

definition dateFields :: "string \<Rightarrow> (nat \<times> nat \<times> nat) option" where
  "dateFields s =
     (let mm = takeWhile isDigit s; r1 = dropWhile isDigit s in
      if (length mm = 1 \<or> length mm = 2) \<and> startsWith r1 ''/'' then
        (let dd = takeWhile isDigit (tl r1); r2 = dropWhile isDigit (tl r1) in
         if (length dd = 1 \<or> length dd = 2) \<and> startsWith r2 ''/'' then
           (let yy = tl r2 in
            if length yy = 4 \<and> list_all isDigit yy
            then Some (parseNat 0 yy, parseNat 0 mm, parseNat 0 dd)
            else None)
         else None)
      else None)"

definition moment :: "string \<Rightarrow> (nat \<times> nat \<times> nat) option" where
  "moment s =
     (case dateFields s of
        None \<Rightarrow> None
      | Some (y, m, d) \<Rightarrow>
          if 1 \<le> m \<and> m \<le> 12 \<and> 1 \<le> d \<and> d \<le> daysInMonth y m then Some (y, m, d) else None)"

text \<open>Day of the week of a calendar date, 0 for Sunday (the library's \<^verbatim>\<open>day()\<close>).\<close>

definition day :: "nat \<times> nat \<times> nat \<Rightarrow> nat" where
  "day ymd =
     (case ymd of (y, m, d) \<Rightarrow>
        (let a = (14 - m) div 12; yy = y + 4800 - a; mm = m + 12 * a - 3;
             jdn = d + (153 * mm + 2) div 5 + 365 * yy + yy div 4 - yy div 100 + yy div 400
         in (jdn - 32045 + 1) mod 7))"

definition isSunday :: "string \<Rightarrow> bool" where
  "isSunday s = (case moment s of None \<Rightarrow> False | Some ymd \<Rightarrow> day ymd = 0)"

section \<open>The data model\<close>

text \<open>
  An entry and a change are the objects \<^verbatim>\<open>EmployeeEntry\<close> and
  \<^verbatim>\<open>PayrollChange\<close> of \<^verbatim>\<open>shared/types.js\<close>: every field is a string, the
  hours a number. The only string that counts as false in a test is the empty one. The
  pay period and the report date are \<^verbatim>\<open>null\<close> until the parser has read them.
\<close>

record entry =
  employeeName :: string
  employeeId :: string
  jobCode :: string
  jobDescription :: string
  date :: string
  hours :: rat
  payType :: string
  laborRate :: string
  costCode :: string
  costCategory :: string
  description :: string
  payPeriodId :: "string option"
  reportDate :: "string option"
  originalLine :: string

record change =
  c_employeeName :: string
  c_employeeId :: string
  c_date :: string
  field :: string
  originalValue :: string
  correctedValue :: string
  rule :: string
  c_description :: string

record result =
  correctedData :: "entry list"
  changes :: "change list"

section \<open>The rule engine\<close>

text \<open>
  The engine is the class \<^verbatim>\<open>RuleEngine\<close> in its version with branch-preserving
  Sunday and call rates. The three tables are the fields its constructor sets.
\<close>

definition SERVICE_INSTALL_LABOR_RATES :: "string list" where
  "SERVICE_INSTALL_LABOR_RATES =
     [''Tech'', ''TechNB'', ''MNTech'', ''MN TECH'', ''SCH_MNTECH'', ''SCH_TECH'',
      ''SCHTECHNB'', ''WN MN TECH'', ''WN TECH'', ''WN TECHNB'',
      ''TechOT'', ''TECHOT'', ''MNTECHOT'', ''MN TECHOT'', ''SCH_TECHOT'',
      ''SCH_MNTECHOT'', ''WN TECHOT'', ''WN MN TECHOT'', ''WN MNTECHOT'',
      ''HELPER'', ''MN HELPER'', ''SCH_HELPER'', ''WN HELPER'',
      ''HELPEROT'', ''MN HELPEROT'', ''SCH_HELPEROT'', ''WN HELPEROT'',
      ''HELPOT'', ''MN HELPOT'', ''SCH_HELPOT'', ''WN HELPOT'',
      ''SHOP'', ''SCH_SHOP'', ''WN SHOP'']"

definition PM_LABOR_RATES :: "string list" where
  "PM_LABOR_RATES =
     [''MN PMTECH'', ''PMTECH'', ''TechNB'', ''Sch MN PM Tech'',
      ''SCH_MN PMTECH'', ''SCH_PMTECH'', ''WN MN PM TECH'', ''WN PM TECH'',
      ''WN PMTECH'', ''PM TECH LABOR'']"

definition OFFICE_COST_CODES :: "string list" where
  "OFFICE_COST_CODES = [''1COAD'', ''1SCHOF'', ''1WNOF'']"

text \<open>
  The object literal every rule pushes: the employee and the date of the entry as they
  are when the rule runs, the field, the two values, the rule and its description.
\<close>

definition changeRecord ::
  "entry \<Rightarrow> string \<Rightarrow> string \<Rightarrow> string \<Rightarrow> string \<Rightarrow> string \<Rightarrow> change" where
  "changeRecord e fld orig corr rl descr =
     \<lparr>c_employeeName = employeeName e, c_employeeId = employeeId e, c_date = date e,
      field = fld, originalValue = orig, correctedValue = corr, rule = rl,
      c_description = descr\<rparr>"

text \<open>
  Rules 4, 5 and 6 compute the rate they write in a local variable
  \<^verbatim>\<open>correctedRate\<close>, by a chain of tests on the current rate. The three chains are
  given here as functions of the current rate, in the order of the source: for rules 4
  and 5 the argument is the rate in upper case, for rule 6 the rate as it stands.
\<close>

definition rule4_correctedRate :: "string \<Rightarrow> string" where
  "rule4_correctedRate currentRate =
     (if startsWith currentRate ''WN '' then ''WN PREM''
      else if startsWith currentRate ''SCH_'' \<or> startsWith currentRate ''SCH ''
        then ''SCH PREM''
      else if startsWith currentRate ''MN '' \<or> startsWith currentRate ''MNTECH''
        then ''MN PREM''
      else ''PREM'')"

definition rule5_correctedRate :: "string \<Rightarrow> string" where
  "rule5_correctedRate currentRate =
     (if startsWith currentRate ''WN MN '' then ''WN MN TECHOT''
      else if startsWith currentRate ''WN '' then ''WN TECHOT''
      else if startsWith currentRate ''SCH_MN'' then ''SCH_MNTECHOT''
      else if startsWith currentRate ''SCH_'' \<or> startsWith currentRate ''SCH ''
        then ''SCH_TECHOT''
      else if startsWith currentRate ''MN '' \<or> currentRate = ''MNTECH''
        then ''MN TECHOT''
      else if currentRate = ''TECH'' then ''TechOT''
      else if includesStr currentRate ''HELPER'' then
        (if startsWith currentRate ''WN '' then ''WN HELPEROT''
         else if startsWith currentRate ''SCH'' then ''SCH_HELPEROT''
         else if startsWith currentRate ''MN '' then ''MN HELPEROT''
         else ''HELPEROT'')
      else ''TechOT'')"

definition rule6_correctedRate :: "string \<Rightarrow> string" where
  "rule6_correctedRate currentRate =
     (let u = toUpperCase currentRate in
      if startsWith u ''WN '' then
        (if u = ''WN TECH'' then ''WN TECHNB''
         else if u = ''WN MN TECH'' then ''WN MN TECHNB''
         else if u = ''WN PM TECH'' then ''WN PM TECHNB''
         else currentRate)
      else if startsWith u ''SCH'' then
        (if u = ''SCH_TECH'' then ''SCHTECHNB''
         else if u = ''SCH_MNTECH'' then ''SCH_MNTECHNB''
         else if u = ''SCH_PMTECH'' then ''SCH_PMTECHNB''
         else currentRate)
      else if u = ''TECH'' then ''TechNB''
      else if u = ''MNTECH'' then ''MNTechNB''
      else if u = ''PMTECH'' then ''PMTECHNB''
      else if u = ''MN PMTECH'' then ''MN PMTECHNB''
      else currentRate)"

text \<open>
  A rule mutates the entry it is given and pushes onto the list of changes: it is a
  function from both to both. The arrow in the name of rule 1 is written as its three
  UTF-8 bytes.
\<close>

definition applyRule1_TechUnapplied :: "entry \<Rightarrow> change list \<Rightarrow> entry \<times> change list" where
  "applyRule1_TechUnapplied e chs =
     (if costCategory e = ''TechUnapplyd'' \<and> payType e \<noteq> ''Unapplied'' then
        (e\<lparr>payType := ''Unapplied''\<rparr>,
         chs @ [changeRecord e ''payType'' (payType e) ''Unapplied''
                  (''Rule 1: TechUnapplied '' @ [CHR 0xE2, CHR 0x86, CHR 0x92] @
                   '' Unapplied Pay Type'')
                  ''Cost Category is TechUnapplyd, so Pay Type must be Unapplied''])
      else (e, chs))"

definition applyRule2_ServiceInstallRates ::
  "entry \<Rightarrow> change list \<Rightarrow> entry \<times> change list" where
  "applyRule2_ServiceInstallRates e chs =
     (let cc = toUpperCase (costCode e) in
      if (cc = ''SERVICE'' \<or> cc = ''INSTALL'') \<and>
         laborRate e \<notin> set SERVICE_INSTALL_LABOR_RATES then
        (let correctedRate = ''Tech'' in
         (e\<lparr>laborRate := correctedRate\<rparr>,
          chs @ [changeRecord e ''laborRate'' (laborRate e) correctedRate
                   ''Rule 2: Service/Install Labor Rate Validation''
                   (''Cost Code is '' @ cc @ '', Labor Rate must be one of: '' @
                    join '', '' SERVICE_INSTALL_LABOR_RATES)]))
      else (e, chs))"

definition applyRule3_PMRates :: "entry \<Rightarrow> change list \<Rightarrow> entry \<times> change list" where
  "applyRule3_PMRates e chs =
     (let cc = toUpperCase (costCode e) in
      if cc \<in> set [''PM'', ''PMF'', ''FTPM''] \<and> laborRate e \<notin> set PM_LABOR_RATES then
        (let correctedRate = ''PMTECH'' in
         (e\<lparr>laborRate := correctedRate\<rparr>,
          chs @ [changeRecord e ''laborRate'' (laborRate e) correctedRate
                   ''Rule 3: PM Labor Rate Validation''
                   (''Cost Code is '' @ cc @ '', Labor Rate must be one of: '' @
                    join '', '' PM_LABOR_RATES)]))
      else (e, chs))"

definition applyRule4_SundayPremium :: "entry \<Rightarrow> change list \<Rightarrow> entry \<times> change list" where
  "applyRule4_SundayPremium e chs =
     (if isSunday (date e) then
        (let (e1, chs1) =
               (if payType e \<noteq> ''Double Time'' then
                  (e\<lparr>payType := ''Double Time''\<rparr>,
                   chs @ [changeRecord e ''payType'' (payType e) ''Double Time''
                            ''Rule 4: Sunday Premium Pay''
                            ''Work on Sunday requires Double Time pay type''])
                else (e, chs))
         in
         if laborRate e1 = [] \<or> \<not> includesStr (toUpperCase (laborRate e1)) ''PREM'' then
           (let currentRate = (if laborRate e1 \<noteq> [] then toUpperCase (laborRate e1) else []);
                correctedRate = rule4_correctedRate currentRate
            in (e1\<lparr>laborRate := correctedRate\<rparr>,
                chs1 @ [changeRecord e1 ''laborRate'' (laborRate e1) correctedRate
                          ''Rule 4: Sunday Premium Rate''
                          ''Work on Sunday requires PREM labor rate'']))
         else (e1, chs1))
      else (e, chs))"

text \<open>
  The file \<^verbatim>\<open>backend/services/ruleEngine.js\<close> holds an earlier rule 4 (lines 141 to
  183), which writes the one rate \<open>PREM\<close> whatever the branch of the current rate. It is
  kept beside the rule of the engine, for comparison.
\<close>

definition applyRule4_SundayPremium_plain ::
  "entry \<Rightarrow> change list \<Rightarrow> entry \<times> change list" where
  "applyRule4_SundayPremium_plain e chs =
     (if isSunday (date e) then
        (let (e1, chs1) =
               (if payType e \<noteq> ''Double Time'' then
                  (e\<lparr>payType := ''Double Time''\<rparr>,
                   chs @ [changeRecord e ''payType'' (payType e) ''Double Time''
                            ''Rule 4: Sunday Premium Pay''
                            ''Work on Sunday requires Double Time pay type''])
                else (e, chs))
         in
         if laborRate e1 \<noteq> ''PREM'' then
           (e1\<lparr>laborRate := ''PREM''\<rparr>,
            chs1 @ [changeRecord e1 ''laborRate'' (laborRate e1) ''PREM''
                      ''Rule 4: Sunday Premium Rate''
                      ''Work on Sunday requires PREM labor rate''])
         else (e1, chs1))
      else (e, chs))"

definition applyRule5_CallWork :: "entry \<Rightarrow> change list \<Rightarrow> entry \<times> change list" where
  "applyRule5_CallWork e chs =
     (if payType e = ''Call'' then
        (let currentRate = (if laborRate e \<noteq> [] then toUpperCase (laborRate e) else []) in
         if includesStr currentRate ''OT'' then (e, chs)
         else
           (let correctedRate = rule5_correctedRate currentRate in
            if laborRate e \<noteq> correctedRate then
              (e\<lparr>laborRate := correctedRate\<rparr>,
               chs @ [changeRecord e ''laborRate'' (laborRate e) correctedRate
                        ''Rule 5: Call Work Labor Rate''
                        ''Call pay type requires overtime labor rate''])
            else (e, chs)))
      else (e, chs))"

definition applyRule6_NoBillDetection ::
  "entry \<Rightarrow> change list \<Rightarrow> entry \<times> change list" where
  \<open>applyRule6_NoBillDetection e chs =
     (if description e \<noteq> [] \<and> includesStr (toLowerCase (description e)) ''no bill'' then
        (let currentRate = laborRate e in
         if currentRate = [] \<or> endsWith (toUpperCase currentRate) ''NB'' then (e, chs)
         else
           (let correctedRate = rule6_correctedRate currentRate in
            if correctedRate \<noteq> currentRate then
              (e\<lparr>laborRate := correctedRate\<rparr>,
               chs @ [changeRecord e ''laborRate'' currentRate correctedRate
                        ''Rule 6: No Bill Detection''
                        ''Description contains "No Bill" - adding NB suffix to labor rate''])
            else (e, chs)))
      else (e, chs))\<close>

definition applyRule7_OfficeOverride :: "entry \<Rightarrow> change list \<Rightarrow> entry \<times> change list" where
  "applyRule7_OfficeOverride e chs =
     (let cc = toUpperCase (costCode e) in
      if cc \<in> set OFFICE_COST_CODES \<and> payType e \<noteq> ''Regular'' then
        (e\<lparr>payType := ''Regular''\<rparr>,
         chs @ [changeRecord e ''payType'' (payType e) ''Regular''
                  ''Rule 7: Office Override''
                  (''Office cost code '' @ cc @ '' requires Regular pay type'')])
      else (e, chs))"

text \<open>
  The body of the loop of \<^verbatim>\<open>applyRules\<close>: a copy of the entry and an empty list of
  changes go through the seven rules in their order.
\<close>

definition correctEntry :: "entry \<Rightarrow> entry \<times> change list" where
  "correctEntry e =
     (let (e1, c1) = applyRule1_TechUnapplied e [];
          (e2, c2) = applyRule2_ServiceInstallRates e1 c1;
          (e3, c3) = applyRule3_PMRates e2 c2;
          (e4, c4) = applyRule4_SundayPremium e3 c3;
          (e5, c5) = applyRule5_CallWork e4 c4;
          (e6, c6) = applyRule6_NoBillDetection e5 c5
      in applyRule7_OfficeOverride e6 c6)"

fun applyRules_loop :: "entry list \<Rightarrow> result \<Rightarrow> result" where
  "applyRules_loop [] acc = acc"
| "applyRules_loop (e # es) acc =
     (let (correctedEntry, entryChanges) = correctEntry e in
      applyRules_loop es
        \<lparr>correctedData = correctedData acc @ [correctedEntry],
         changes = changes acc @ entryChanges\<rparr>)"

definition applyRules :: "entry list \<Rightarrow> result" where
  "applyRules employeeData = applyRules_loop employeeData \<lparr>correctedData = [], changes = []\<rparr>"

text \<open>
  \<^verbatim>\<open>validateEntry\<close> reads the entry and returns the issues it finds. The date library
  does not throw on a string, so the handler around the Sunday check is never entered.
\<close>

definition validateEntry :: "entry \<Rightarrow> string list" where
  \<open>validateEntry e =
     (let i1 = (if costCategory e = ''TechUnapplyd'' \<and> payType e \<noteq> ''Unapplied''
                then [''Cost Category is TechUnapplyd but Pay Type is not Unapplied'']
                else []);
          cc = toUpperCase (costCode e);
          i2 = (if (cc = ''SERVICE'' \<or> cc = ''INSTALL'') \<and>
                   laborRate e \<notin> set SERVICE_INSTALL_LABOR_RATES
                then [''Service/Install work requires approved labor rate, got: '' @ laborRate e]
                else []);
          i3 = (if cc \<in> set [''PM'', ''PMF'', ''FTPM''] \<and> laborRate e \<notin> set PM_LABOR_RATES
                then [''PM work requires approved labor rate, got: '' @ laborRate e]
                else []);
          i4 = (if isSunday (date e) then
                  (if payType e \<noteq> ''Double Time''
                   then [''Sunday work requires Double Time pay type''] else []) @
                  (let currentRate = (if laborRate e \<noteq> [] then toUpperCase (laborRate e) else [])
                   in if \<not> includesStr currentRate ''PREM''
                      then [''Sunday work requires PREM labor rate''] else [])
                else []);
          i5 = (if payType e = ''Call'' then
                  (let currentRate = (if laborRate e \<noteq> [] then toUpperCase (laborRate e) else [])
                   in if \<not> includesStr currentRate ''OT''
                      then [''Call work requires overtime labor rate''] else [])
                else []);
          i6 = (if description e \<noteq> [] \<and> includesStr (toLowerCase (description e)) ''no bill''
                then
                  (let currentRate = laborRate e in
                   if currentRate \<noteq> [] \<and> \<not> endsWith (toUpperCase currentRate) ''NB''
                   then [''Description contains "No Bill" but labor rate lacks NB suffix'']
                   else [])
                else []);
          i7 = (if cc \<in> set OFFICE_COST_CODES \<and> payType e \<noteq> ''Regular''
                then [''Office cost code '' @ cc @ '' requires Regular pay type'']
                else [])
      in i1 @ i2 @ i3 @ i4 @ i5 @ i6 @ i7)\<close>

section \<open>The engine on a store of objects\<close>

text \<open>
  \<^verbatim>\<open>applyRules\<close> receives references to entry objects. For each one it allocates a copy,
  \<^verbatim>\<open>const correctedEntry = { ...entry }\<close>, and hands the reference of the copy to the
  seven rules, which assign to its fields. A store is the list of the objects allocated so
  far and a reference is an index into it; allocation appends. The fields of an entry are
  strings and numbers, so the copy shares nothing with the original.
\<close>

type_synonym store = "entry list"

text \<open>A rule called on a reference: it reads the object there and writes it back.\<close>

definition atRef ::
  "(entry \<Rightarrow> change list \<Rightarrow> entry \<times> change list) \<Rightarrow> nat \<Rightarrow> store \<times> change list \<Rightarrow>
   store \<times> change list" where
  "atRef r a s =
     (case s of (h, chs) \<Rightarrow> (let (e', chs') = r (h ! a) chs in (h[a := e'], chs')))"

definition correctEntry_store :: "store \<Rightarrow> nat \<Rightarrow> store \<times> nat \<times> change list" where
  "correctEntry_store h a =
     (let correctedEntry = length h;
          h0 = h @ [h ! a];
          s1 = atRef applyRule1_TechUnapplied correctedEntry (h0, []);
          s2 = atRef applyRule2_ServiceInstallRates correctedEntry s1;
          s3 = atRef applyRule3_PMRates correctedEntry s2;
          s4 = atRef applyRule4_SundayPremium correctedEntry s3;
          s5 = atRef applyRule5_CallWork correctedEntry s4;
          s6 = atRef applyRule6_NoBillDetection correctedEntry s5;
          (h7, entryChanges) = atRef applyRule7_OfficeOverride correctedEntry s6
      in (h7, correctedEntry, entryChanges))"

fun applyRules_store_loop ::
  "nat list \<Rightarrow> store \<times> nat list \<times> change list \<Rightarrow> store \<times> nat list \<times> change list" where
  "applyRules_store_loop [] s = s"
| "applyRules_store_loop (a # as) (h, corrected, chs) =
     (let (h', correctedEntry, entryChanges) = correctEntry_store h a in
      applyRules_store_loop as (h', corrected @ [correctedEntry], chs @ entryChanges))"

definition applyRules_store :: "store \<Rightarrow> nat list \<Rightarrow> store \<times> nat list \<times> change list" where
  "applyRules_store h employeeData = applyRules_store_loop employeeData (h, [], [])"

section \<open>The parser: strings and patterns\<close>

text \<open>
  White space is what \<^verbatim>\<open>trim\<close> removes and \<^verbatim>\<open>\s\<close> matches, among the 8-bit
  characters: tab, line feed, vertical tab, form feed, carriage return, space and the
  no-break space. A word character is what \<^verbatim>\<open>\w\<close> matches.
\<close>

definition isSpace :: "char \<Rightarrow> bool" where
  "isSpace c = (c \<in> set [CHR 0x09, CHR 0x0A, CHR 0x0B, CHR 0x0C, CHR 0x0D, CHR 0x20, CHR 0xA0])"

definition isWordChar :: "char \<Rightarrow> bool" where
  "isWordChar c =
     (c \<in> set ''ABCDEFGHIJKLMNOPQRSTUVWXYZabcdefghijklmnopqrstuvwxyz0123456789_'')"

definition isUpper :: "char \<Rightarrow> bool" where
  "isUpper c = (c \<in> set ''ABCDEFGHIJKLMNOPQRSTUVWXYZ'')"

definition trim :: "string \<Rightarrow> string" where
  "trim s = rev (dropWhile isSpace (rev (dropWhile isSpace s)))"

text \<open>\<^verbatim>\<open>text.split('\n')\<close>: the pieces between the line feeds, at least one.\<close>

fun splitLines :: "string \<Rightarrow> string list" where
  "splitLines [] = [[]]"
| "splitLines (c # cs) =
     (if c = CHR 0x0A then [] # splitLines cs
      else (case splitLines cs of [] \<Rightarrow> [[c]] | l # ls \<Rightarrow> (c # l) # ls))"

text \<open>
  \<^verbatim>\<open>s.split(sep)\<close> for a separator that is not empty: the pieces between the
  occurrences of the separator, found from the left. The second argument collects the
  piece being read, in reverse.
\<close>

fun splitAcc :: "string \<Rightarrow> string \<Rightarrow> string \<Rightarrow> string list" where
  "splitAcc sep acc [] = [rev acc]"
| "splitAcc sep acc (c # cs) =
     (if sep \<noteq> [] \<and> startsWith (c # cs) sep
      then rev acc # splitAcc sep [] (drop (length sep) (c # cs))
      else splitAcc sep (c # acc) cs)"

definition split :: "string \<Rightarrow> string \<Rightarrow> string list" where
  "split s sep = splitAcc sep [] s"

text \<open>
  \<^verbatim>\<open>s.substring(s.indexOf(sub) + sub.length)\<close>, for every use in the parser where
  \<^verbatim>\<open>sub\<close> occurs in \<^verbatim>\<open>s\<close>: what follows the first occurrence. When there is
  none, \<^verbatim>\<open>indexOf\<close> is -1 and the substring starts at \<^verbatim>\<open>sub.length - 1\<close>.
\<close>

fun afterFirst :: "string \<Rightarrow> string \<Rightarrow> string option" where
  "afterFirst [] sub = (if sub = [] then Some [] else None)"
| "afterFirst (c # cs) sub =
     (if startsWith (c # cs) sub then Some (drop (length sub) (c # cs)) else afterFirst cs sub)"

definition substringAfter :: "string \<Rightarrow> string \<Rightarrow> string" where
  "substringAfter s sub =
     (case afterFirst s sub of Some r \<Rightarrow> r | None \<Rightarrow> drop (length sub - 1) s)"

text \<open>
  \<^verbatim>\<open>parseFloat\<close> on the strings the hour patterns capture: digits, then possibly a
  point and digits. The value is the decimal number itself; the rounding to a double is
  not modelled.
\<close>

definition parseFloat :: "string \<Rightarrow> rat" where
  "parseFloat s =
     (let ip = takeWhile isDigit s; r = dropWhile isDigit s;
          fp = (if startsWith r ''.'' then takeWhile isDigit (tl r) else [])
      in of_nat (parseNat 0 ip) + of_nat (parseNat 0 fp) / 10 ^ length fp)"

text \<open>\<^verbatim>\<open>/Pay Period Id:\s*([^\s]+)/\<close>, the captured identifier.\<close>

definition payPeriodMatch :: "string \<Rightarrow> string option" where
  "payPeriodMatch s =
     (case afterFirst s ''Pay Period Id:'' of
        None \<Rightarrow> None
      | Some r \<Rightarrow>
          (let tok = takeWhile (\<lambda>c. \<not> isSpace c) (dropWhile isSpace r)
           in if tok = [] then None else Some tok))"

text \<open>
  \<^verbatim>\<open>/\w{3}\s+\w{3}\s+\d{1,2},\s+\d{4}/\<close>. \<open>reportDateAt\<close> matches at the start of its
  argument and returns what is left after the match; the search takes the first position
  that matches and returns the matched text.
\<close>

definition reportDateAt :: "string \<Rightarrow> string option" where
  "reportDateAt s =
     (if length s \<ge> 3 \<and> list_all isWordChar (take 3 s) then
        (let r1 = drop 3 s; r2 = dropWhile isSpace r1 in
         if r1 \<noteq> [] \<and> isSpace (hd r1) \<and> length r2 \<ge> 3 \<and> list_all isWordChar (take 3 r2) then
           (let r3 = drop 3 r2; r4 = dropWhile isSpace r3;
                ds = takeWhile isDigit r4; r5 = dropWhile isDigit r4 in
            if r3 \<noteq> [] \<and> isSpace (hd r3) \<and> (length ds = 1 \<or> length ds = 2) \<and>
               startsWith r5 '','' then
              (let r6 = tl r5; r7 = dropWhile isSpace r6 in
               if r6 \<noteq> [] \<and> isSpace (hd r6) \<and> length r7 \<ge> 4 \<and> list_all isDigit (take 4 r7)
               then Some (drop 4 r7) else None)
            else None)
         else None)
      else None)"

fun reportDateMatch :: "string \<Rightarrow> string option" where
  "reportDateMatch [] = None"
| "reportDateMatch (c # cs) =
     (case reportDateAt (c # cs) of
        Some r \<Rightarrow> Some (take (length (c # cs) - length r) (c # cs))
      | None \<Rightarrow> reportDateMatch cs)"

text \<open>
  \<^verbatim>\<open>/(\d{1,2}\/\d{1,2}\/\d{4})/\<close>: one or two digits, a slash, one or two digits, a
  slash, four digits. \<open>dateAt\<close> returns the matched text at the start of its argument.
\<close>

definition dateAt :: "string \<Rightarrow> string option" where
  "dateAt s =
     (let mm = takeWhile isDigit s; r1 = dropWhile isDigit s in
      if (length mm = 1 \<or> length mm = 2) \<and> startsWith r1 ''/'' then
        (let dd = takeWhile isDigit (tl r1); r2 = dropWhile isDigit (tl r1) in
         if (length dd = 1 \<or> length dd = 2) \<and> startsWith r2 ''/'' \<and>
            length (tl r2) \<ge> 4 \<and> list_all isDigit (take 4 (tl r2))
         then Some (mm @ ''/'' @ dd @ ''/'' @ take 4 (tl r2))
         else None)
      else None)"

fun dateMatch :: "string \<Rightarrow> string option" where
  "dateMatch [] = None"
| "dateMatch (c # cs) =
     (case dateAt (c # cs) of Some d \<Rightarrow> Some d | None \<Rightarrow> dateMatch cs)"

text \<open>
  The employee header. The name is matched lazily, one character of the class
  \<^verbatim>\<open>[A-Za-z',.\s-]\<close> at a time, until the rest of the pattern matches what follows.
\<close>

definition isNameChar :: "char \<Rightarrow> bool" where
  "isNameChar c =
     (c \<in> set ''ABCDEFGHIJKLMNOPQRSTUVWXYZabcdefghijklmnopqrstuvwxyz'' \<or>
      c \<in> set [CHR 0x27, CHR '','', CHR ''.'', CHR ''-''] \<or> isSpace c)"

fun lazyName :: "(string \<Rightarrow> string option) \<Rightarrow> string \<Rightarrow> string \<Rightarrow> (string \<times> string) option" where
  "lazyName tail acc [] = None"
| "lazyName tail acc (c # cs) =
     (if isNameChar c then
        (case tail cs of
           Some d \<Rightarrow> Some (rev (c # acc), d)
         | None \<Rightarrow> lazyName tail (c # acc) cs)
      else None)"

section \<open>The parser: scanning state\<close>

text \<open>
  The variables of the loop of \<^verbatim>\<open>parseEmployeeData\<close>: the current employee (name and
  identifier) or none, the entries buffered for that employee, the entries already
  saved, the pay period and the report date. The two counters of the source are only
  logged and are left out. An entry of the buffer carries no employee yet: its employee
  fields are empty and its period and report date absent until it is saved.
\<close>

record pstate =
  currentEmployee :: "(string \<times> string) option"
  employeeEntries :: "entry list"
  allEntries :: "entry list"
  payPeriod :: "string option"
  reportDateSeen :: "string option"

definition initialState :: pstate where
  "initialState =
     \<lparr>currentEmployee = None, employeeEntries = [], allEntries = [],
      payPeriod = None, reportDateSeen = None\<rparr>"

text \<open>
  Saving the buffer: when there is a current employee and the buffer is not empty, every
  buffered entry is pushed with the employee, the pay period and the report date.
\<close>

definition saveEntries :: "pstate \<Rightarrow> entry list" where
  "saveEntries st =
     (case currentEmployee st of
        Some (name, ident) \<Rightarrow>
          if employeeEntries st \<noteq> [] then
            allEntries st @
            map (\<lambda>e. e\<lparr>employeeName := name, employeeId := ident,
                        payPeriodId := payPeriod st, reportDate := reportDateSeen st\<rparr>)
                (employeeEntries st)
          else allEntries st
      | None \<Rightarrow> allEntries st)"

text \<open>The two updates every line goes through first: pay period and report date.\<close>

definition readMarkers :: "string \<Rightarrow> pstate \<Rightarrow> pstate" where
  "readMarkers trimmedLine st =
     (let st1 =
            (if includesStr trimmedLine ''Pay Period Id:'' then
               (case payPeriodMatch trimmedLine of
                  Some p \<Rightarrow> st\<lparr>payPeriod := Some p\<rparr>
                | None \<Rightarrow> st)
             else st)
      in
      if reportDateSeen st1 = None \<or> reportDateSeen st1 = Some [] then
        (case reportDateMatch trimmedLine of
           Some d \<Rightarrow> st1\<lparr>reportDateSeen := Some d\<rparr>
         | None \<Rightarrow> st1)
      else st1)"

definition startEmployee :: "string \<times> string \<Rightarrow> pstate \<Rightarrow> pstate" where
  "startEmployee m st =
     st\<lparr>allEntries := saveEntries st,
        currentEmployee := Some (trim (fst m), trim (snd m)),
        employeeEntries := []\<rparr>"

definition endEmployee :: "pstate \<Rightarrow> pstate" where
  "endEmployee st =
     st\<lparr>allEntries := saveEntries st, currentEmployee := None, employeeEntries := []\<rparr>"

section \<open>The parser: one entry on one line\<close>

text \<open>
  This is \<^verbatim>\<open>parseEmployeeData\<close> with \<^verbatim>\<open>parseTimeEntry\<close> as the file
  \<^verbatim>\<open>pdfParser.js\<close> has them first (lines 21 to 296): every line with a date, under an
  employee, is handed to \<^verbatim>\<open>parseTimeEntry\<close>, which finds the fields by keywords.
\<close>

definition headerTail_sl :: "string \<Rightarrow> string option" where
  "headerTail_sl s =
     (let r = dropWhile isSpace s in
      if startsWith r ''-'' then
        (let r' = dropWhile isSpace (tl r); d = takeWhile isDigit r'; z = dropWhile isDigit r' in
         if d \<noteq> [] \<and> dropWhile isSpace z = [] then Some d else None)
      else None)"

definition employeeMatch_sl :: "string \<Rightarrow> (string \<times> string) option" where
  "employeeMatch_sl trimmedLine = lazyName headerTail_sl [] trimmedLine"

text \<open>\<^verbatim>\<open>/^\(([^)]+)\)/\<close>: the job code and what follows the closing parenthesis.\<close>

definition jobCodeMatch_sl :: "string \<Rightarrow> (string \<times> string) option" where
  "jobCodeMatch_sl line =
     (if startsWith line ''('' then
        (let jc = takeWhile (\<lambda>c. c \<noteq> CHR '')'') (tl line);
             r = dropWhile (\<lambda>c. c \<noteq> CHR '')'') (tl line) in
         if jc \<noteq> [] \<and> startsWith r '')'' then Some (jc, tl r) else None)
      else None)"

text \<open>\<^verbatim>\<open>/^\s*(\d+\.?\d*)/\<close> on what follows the date.\<close>

definition hoursAfterDate :: "string \<Rightarrow> rat option" where
  "hoursAfterDate afterDate =
     (let r = dropWhile isSpace afterDate in
      if r \<noteq> [] \<and> isDigit (hd r) then Some (parseFloat r) else None)"

text \<open>
  \<^verbatim>\<open>/\b(\d+\.\d{2})\b/\<close> anywhere in the line. The flag says that the character
  before the position is not a word character.
\<close>

definition anyHoursAt :: "string \<Rightarrow> rat option" where
  "anyHoursAt s =
     (let ip = takeWhile isDigit s; r = dropWhile isDigit s in
      if ip \<noteq> [] \<and> startsWith r ''.'' \<and> length (tl r) \<ge> 2 \<and>
         list_all isDigit (take 2 (tl r)) \<and>
         (drop 2 (tl r) = [] \<or> \<not> isWordChar (hd (drop 2 (tl r))))
      then Some (parseFloat s) else None)"

fun anyHoursMatch :: "bool \<Rightarrow> string \<Rightarrow> rat option" where
  "anyHoursMatch b [] = None"
| "anyHoursMatch b (c # cs) =
     (if b \<and> isDigit c then
        (case anyHoursAt (c # cs) of
           Some h \<Rightarrow> Some h
         | None \<Rightarrow> anyHoursMatch (\<not> isWordChar c) cs)
      else anyHoursMatch (\<not> isWordChar c) cs)"

text \<open>The first keyword of a list that the line contains, or the default.\<close>

fun firstIncluded :: "string \<Rightarrow> string list \<Rightarrow> string \<Rightarrow> string" where
  "firstIncluded line [] dflt = dflt"
| "firstIncluded line (k # ks) dflt =
     (if includesStr line k then k else firstIncluded line ks dflt)"

definition payTypes :: "string list" where
  "payTypes = [''Regular'', ''Overtime'', ''Double Time'', ''Call'', ''Unapplied'', ''OTClearing'']"

definition laborRates :: "string list" where
  "laborRates =
     [''TechOT'', ''TechNB'', ''Tech'', ''PMTECH'', ''MN PMTECH'', ''MNTech'',
      ''SCH_MNTECH'', ''SCH_TECH'', ''SCHTECHNB'', ''SCH_PMTECH'', ''SCH_MN PMTECH'',
      ''WN MN TECH'', ''WN TECH'', ''WN TECHNB'', ''WN MN PM TECH'', ''WN PM TECH'',
      ''PREM'', ''SHOP'', ''MN PMTECH'', ''Sch MN PM Tech'']"

text \<open>
  \<^verbatim>\<open>laborRates.sort((a, b) => b.length - a.length)\<close>: longer rates first, rates of
  equal length in their order of the list (the sort is stable).
\<close>

fun insertByLength :: "string \<Rightarrow> string list \<Rightarrow> string list" where
  "insertByLength x [] = [x]"
| "insertByLength x (y # ys) =
     (if length y < length x then x # y # ys else y # insertByLength x ys)"

definition sortByLengthDesc :: "string list \<Rightarrow> string list" where
  "sortByLengthDesc xs = foldl (\<lambda>acc x. insertByLength x acc) [] xs"

definition costCodes :: "string list" where
  "costCodes = [''SERVICE'', ''INSTALL'', ''PM'', ''PMF'', ''FTPM'', ''SHMTL'', ''RETAIL'']"

text \<open>
  \<^verbatim>\<open>new RegExp(`\\b${code}\\b`).test(line)\<close> for a code made of word characters:
  the code occurs with no word character before it and none after it.
\<close>

fun wordIncluded :: "bool \<Rightarrow> string \<Rightarrow> string \<Rightarrow> bool" where
  "wordIncluded b [] code = False"
| "wordIncluded b (c # cs) code =
     ((b \<and> startsWith (c # cs) code \<and>
       (drop (length code) (c # cs) = [] \<or> \<not> isWordChar (hd (drop (length code) (c # cs))))) \<or>
      wordIncluded (\<not> isWordChar c) cs code)"

fun firstWordIncluded :: "string \<Rightarrow> string list \<Rightarrow> string \<Rightarrow> string" where
  "firstWordIncluded line [] dflt = dflt"
| "firstWordIncluded line (k # ks) dflt =
     (if wordIncluded True line k then k else firstWordIncluded line ks dflt)"

definition categories :: "string list" where
  "categories = [''DirLab'', ''TechUnapplyd'', ''TechUnapplied'', ''Office'', ''CLEARING'']"

definition parseTimeEntry :: "string \<Rightarrow> string \<Rightarrow> entry option" where
  "parseTimeEntry line dateStr =
     (if dateStr = [] then None
      else
        (let jobCodeMatch = jobCodeMatch_sl line;
             jc = (case jobCodeMatch of Some (c, r) \<Rightarrow> c | None \<Rightarrow> []);
             afterDate = substringAfter line dateStr;
             hrs = (case hoursAfterDate afterDate of
                      Some h \<Rightarrow> h
                    | None \<Rightarrow> (case anyHoursMatch True line of Some h \<Rightarrow> h | None \<Rightarrow> 0));
             pt = firstIncluded line payTypes ''Regular'';
             lr = firstIncluded line (sortByLengthDesc laborRates) ''Tech'';
             cc = firstWordIncluded line costCodes ''SERVICE'';
             cat0 = firstIncluded line categories ''DirLab'';
             cat = (if cat0 = ''TechUnapplied'' then ''TechUnapplyd'' else cat0);
             jd = (case jobCodeMatch of
                     Some (c, afterJobCode) \<Rightarrow> trim (hd (split afterJobCode dateStr))
                   | None \<Rightarrow> []);
             parts = split line '' - '';
             descr = (if length parts > 1 then trim (last parts) else [])
         in
         if hrs > 0 then
           Some \<lparr>employeeName = [], employeeId = [], jobCode = jc, jobDescription = jd,
                 date = dateStr, hours = hrs, payType = pt, laborRate = lr, costCode = cc,
                 costCategory = cat, description = descr, payPeriodId = None,
                 reportDate = None, originalLine = trim line\<rparr>
         else None))"

text \<open>
  One turn of the loop on one line: the new state, and whether the loop stops
  (\<^verbatim>\<open>break\<close> at the report totals).
\<close>

definition processLine_sl :: "string \<Rightarrow> pstate \<Rightarrow> pstate \<times> bool" where
  "processLine_sl line st =
     (let trimmedLine = trim line in
      if trimmedLine = [] then (st, False)
      else
        (let st2 = readMarkers trimmedLine st in
         case employeeMatch_sl trimmedLine of
           Some m \<Rightarrow> (startEmployee m st2, False)
         | None \<Rightarrow>
             (let st3 =
                    (if currentEmployee st2 \<noteq> None then
                       (case dateMatch trimmedLine of
                          Some d \<Rightarrow>
                            if \<not> includesStr trimmedLine ''Employee Totals'' \<and>
                               \<not> includesStr trimmedLine ''Report Totals''
                            then (case parseTimeEntry trimmedLine d of
                                    Some e \<Rightarrow> st2\<lparr>employeeEntries := employeeEntries st2 @ [e]\<rparr>
                                  | None \<Rightarrow> st2)
                            else st2
                        | None \<Rightarrow> st2)
                     else st2);
                  st4 = (if includesStr trimmedLine ''Employee Totals'' then endEmployee st3
                         else st3)
              in (st4, includesStr trimmedLine ''Report Totals''))))"

fun scanLines_sl :: "string list \<Rightarrow> pstate \<Rightarrow> pstate" where
  "scanLines_sl [] st = st"
| "scanLines_sl (line # lines) st =
     (case processLine_sl line st of
        (st', stop) \<Rightarrow> if stop then st' else scanLines_sl lines st')"

definition parseEmployeeData_sl :: "string \<Rightarrow> entry list" where
  "parseEmployeeData_sl text = saveEntries (scanLines_sl (splitLines text) initialState)"

section \<open>The parser: one entry on four lines\<close>

text \<open>
  This is \<^verbatim>\<open>parseEmployeeData\<close> as the file \<^verbatim>\<open>pdfParser.js\<close> has it second
  (lines 356 to 565): under an employee, a line that opens with a job code starts an
  entry, and the next three lines are read as its date, its hours and its fields
  separated by dashes. The \<^verbatim>\<open>parseTimeEntry\<close> that follows it in the file is not
  called from this loop.
\<close>

text \<open>\<^verbatim>\<open>\s+-\s+(\d+)\<close>, with nothing required after the digits.\<close>

definition headerTail_ml :: "string \<Rightarrow> string option" where
  "headerTail_ml s =
     (let r = dropWhile isSpace s in
      if s \<noteq> [] \<and> isSpace (hd s) \<and> startsWith r ''-'' \<and> tl r \<noteq> [] \<and> isSpace (hd (tl r)) then
        (let d = takeWhile isDigit (dropWhile isSpace (tl r)) in
         if d \<noteq> [] then Some d else None)
      else None)"

definition employeeMatch_ml :: "string \<Rightarrow> (string \<times> string) option" where
  "employeeMatch_ml trimmedLine =
     (case lazyName headerTail_ml [] trimmedLine of
        Some m \<Rightarrow>
          if \<not> includesStr trimmedLine ''Date'' \<and> \<not> includesStr trimmedLine ''Hours''
          then Some m else None
      | None \<Rightarrow> None)"

text \<open>
  \<^verbatim>\<open>/^\(([A-Z][^)]*)\)(.*)$/\<close>, or else \<^verbatim>\<open>/^([A-Z]+)\)(.*)$/\<close>: the job code and
  the rest of the line. The dot matches no line terminator, so the rest must hold none.
\<close>

definition isLineTerminator :: "char \<Rightarrow> bool" where
  "isLineTerminator c = (c \<in> set [CHR 0x0A, CHR 0x0D])"

definition jobCodeMatch_ml :: "string \<Rightarrow> (string \<times> string) option" where
  "jobCodeMatch_ml s =
     (let jc1 = takeWhile (\<lambda>c. c \<noteq> CHR '')'') (tl s);
          r1 = dropWhile (\<lambda>c. c \<noteq> CHR '')'') (tl s);
          jc2 = takeWhile isUpper s;
          r2 = dropWhile isUpper s
      in
      if startsWith s ''('' \<and> jc1 \<noteq> [] \<and> isUpper (hd jc1) \<and> startsWith r1 '')'' \<and>
         \<not> list_ex isLineTerminator (tl r1)
      then Some (jc1, tl r1)
      else if jc2 \<noteq> [] \<and> startsWith r2 '')'' \<and> \<not> list_ex isLineTerminator (tl r2)
      then Some (jc2, tl r2)
      else None)"

text \<open>\<^verbatim>\<open>/^(\d{1,2}\/\d{1,2}\/\d{4})$/\<close>: the whole line is a date.\<close>

definition wholeDate :: "string \<Rightarrow> string option" where
  "wholeDate s = (case dateAt s of Some d \<Rightarrow> if d = s then Some d else None | None \<Rightarrow> None)"

text \<open>\<^verbatim>\<open>/^(\d+(?:\.\d+)?)\s*$/\<close>, then \<^verbatim>\<open>parseFloat\<close> of the capture.\<close>

definition wholeHours :: "string \<Rightarrow> rat option" where
  "wholeHours s =
     (let ip = takeWhile isDigit s; r = dropWhile isDigit s;
          fp = (if startsWith r ''.'' then takeWhile isDigit (tl r) else []);
          z = (if fp \<noteq> [] then dropWhile isDigit (tl r) else r)
      in if ip \<noteq> [] \<and> dropWhile isSpace z = [] then Some (parseFloat s) else None)"

text \<open>\<^verbatim>\<open>dashParts[i] || dflt\<close>: the default when the part is missing or empty.\<close>

definition partOr :: "string list \<Rightarrow> nat \<Rightarrow> string \<Rightarrow> string" where
  "partOr parts i dflt = (if i < length parts \<and> parts ! i \<noteq> [] then parts ! i else dflt)"

text \<open>
  The look-ahead from a line with a job code: the entry, and how many of the following
  lines it takes with it (the three lines of the entry, a line \<open>Source\<close> or
  \<open>Labor...\<close> after them, and a line of digits after that).
\<close>

definition lookAhead :: "string \<Rightarrow> string \<times> string \<Rightarrow> string list \<Rightarrow> (entry \<times> nat) option" where
  "lookAhead trimmedLine jobCodeMatch rest =
     (if length rest \<ge> 3 then
        (let nextLine1 = trim (rest ! 0); nextLine2 = trim (rest ! 1);
             nextLine3 = trim (rest ! 2)
         in
         case (wholeDate nextLine1, wholeHours nextLine2) of
           (Some d, Some h) \<Rightarrow>
             if includesStr nextLine3 '' - '' then
               (let dashParts = map trim (split nextLine3 '' - '');
                    e = \<lparr>employeeName = [], employeeId = [], jobCode = fst jobCodeMatch,
                         jobDescription = trim (snd jobCodeMatch), date = d, hours = h,
                         payType = partOr dashParts 0 ''Regular'',
                         laborRate = partOr dashParts 1 ''Tech'',
                         costCode = partOr dashParts 2 ''SERVICE'',
                         costCategory = partOr dashParts 3 ''DirLab'',
                         description = partOr dashParts 4 [],
                         payPeriodId = None, reportDate = None,
                         originalLine =
                           trimmedLine @ '' '' @ nextLine1 @ '' '' @ nextLine2 @ '' '' @ nextLine3\<rparr>;
                    more = drop 3 rest;
                    k1 = (if more \<noteq> [] \<and>
                             (trim (hd more) = ''Source'' \<or> startsWith (trim (hd more)) ''Labor'')
                          then 1 else 0);
                    more' = drop k1 more;
                    k2 = (if more' \<noteq> [] \<and> trim (hd more') \<noteq> [] \<and>
                             list_all isDigit (trim (hd more'))
                          then 1 else 0)
                in Some (e, 3 + k1 + k2))
             else None
         | _ \<Rightarrow> None)
      else None)"

text \<open>
  One turn of the loop: the new state, whether the loop stops, and how many of the
  following lines the turn has taken.
\<close>

definition processLine_ml :: "string \<Rightarrow> string list \<Rightarrow> pstate \<Rightarrow> pstate \<times> bool \<times> nat" where
  "processLine_ml line rest st =
     (let trimmedLine = trim line in
      if trimmedLine = [] then (st, False, 0)
      else
        (let st2 = readMarkers trimmedLine st in
         case employeeMatch_ml trimmedLine of
           Some m \<Rightarrow> (startEmployee m st2, False, 0)
         | None \<Rightarrow>
             (let (st3, k) =
                    (if currentEmployee st2 \<noteq> None then
                       (case jobCodeMatch_ml trimmedLine of
                          Some jm \<Rightarrow>
                            (case lookAhead trimmedLine jm rest of
                               Some (e, k) \<Rightarrow>
                                 (st2\<lparr>employeeEntries := employeeEntries st2 @ [e]\<rparr>, k)
                             | None \<Rightarrow> (st2, 0))
                        | None \<Rightarrow> (st2, 0))
                     else (st2, 0));
                  st4 = (if includesStr trimmedLine ''Employee Totals'' then endEmployee st3
                         else st3)
              in (st4, includesStr trimmedLine ''Report Totals'', k))))"

fun scanLines_ml :: "string list \<Rightarrow> pstate \<Rightarrow> pstate" where
  "scanLines_ml [] st = st"
| "scanLines_ml (line # rest) st =
     (case processLine_ml line rest st of
        (st', stop, k) \<Rightarrow> if stop then st' else scanLines_ml (drop k rest) st')"

definition parseEmployeeData_ml :: "string \<Rightarrow> entry list" where
  "parseEmployeeData_ml text = saveEntries (scanLines_ml (splitLines text) initialState)"

section \<open>Entries used as concrete inputs\<close>

definition sundayEntry :: entry where
  "sundayEntry =
     \<lparr>employeeName = ''Pat Doe'', employeeId = ''7'', jobCode = ''J100'',
      jobDescription = ''ACME'', date = ''08/03/2025'', hours = 8,
      payType = ''Regular'', laborRate = ''SCH_TECH'', costCode = ''SERVICE'',
      costCategory = ''DirLab'', description = ''Sunday work'',
      payPeriodId = None, reportDate = None, originalLine = []\<rparr>"

definition pmCallEntry :: entry where
  "pmCallEntry =
     \<lparr>employeeName = ''Pat Doe'', employeeId = ''7'', jobCode = ''J100'',
      jobDescription = ''ACME'', date = ''08/04/2025'', hours = 2,
      payType = ''Call'', laborRate = ''PMTECH'', costCode = ''PM'',
      costCategory = ''DirLab'', description = ''Maintenance'',
      payPeriodId = None, reportDate = None, originalLine = []\<rparr>"

definition helperCallEntry :: entry where
  "helperCallEntry =
     \<lparr>employeeName = ''Pat Doe'', employeeId = ''7'', jobCode = ''J100'',
      jobDescription = ''ACME'', date = ''08/04/2025'', hours = 2,
      payType = ''Call'', laborRate = ''WN HELPER'', costCode = ''SERVICE'',
      costCategory = ''DirLab'', description = ''Call out'',
      payPeriodId = None, reportDate = None, originalLine = []\<rparr>"

definition unappliedCallEntry :: entry where
  "unappliedCallEntry =
     \<lparr>employeeName = ''Pat Doe'', employeeId = ''7'', jobCode = ''J100'',
      jobDescription = ''ACME'', date = ''08/04/2025'', hours = 2,
      payType = ''Call'', laborRate = ''TechOT'', costCode = ''SERVICE'',
      costCategory = ''TechUnapplyd'', description = ''Call out'',
      payPeriodId = None, reportDate = None, originalLine = []\<rparr>"

definition officeUnappliedEntry :: entry where
  "officeUnappliedEntry =
     \<lparr>employeeName = ''Pat Doe'', employeeId = ''7'', jobCode = ''J100'',
      jobDescription = ''ACME'', date = ''08/04/2025'', hours = 2,
      payType = ''Call'', laborRate = ''TechOT'', costCode = ''1COAD'',
      costCategory = ''TechUnapplyd'', description = ''Office'',
      payPeriodId = None, reportDate = None, originalLine = []\<rparr>"

definition shopNoBillEntry :: entry where
  "shopNoBillEntry =
     \<lparr>employeeName = ''Pat Doe'', employeeId = ''7'', jobCode = ''J100'',
      jobDescription = ''ACME'', date = ''08/04/2025'', hours = 2,
      payType = ''Regular'', laborRate = ''SHOP'', costCode = ''SERVICE'',
      costCategory = ''DirLab'', description = ''Shop time - No Bill'',
      payPeriodId = None, reportDate = None, originalLine = []\<rparr>"

definition compliantEntry :: entry where
  "compliantEntry =
     \<lparr>employeeName = ''Pat Doe'', employeeId = ''7'', jobCode = ''J100'',
      jobDescription = ''ACME'', date = ''08/04/2025'', hours = 2,
      payType = ''Regular'', laborRate = ''Tech'', costCode = ''SERVICE'',
      costCategory = ''DirLab'', description = ''Repair'',
      payPeriodId = None, reportDate = None, originalLine = []\<rparr>"

section \<open>Report texts used as concrete inputs\<close>

text \<open>
  Two employees, each with two entries on one line and a line of totals: the text of the
  grouping property.
\<close>

definition groupingText :: string where
  "groupingText =
     ''John Smith - 101'' @ [CHR 0x0A] @
     ''(J1)ACME 07/28/2025 1.50 - Regular - Tech - SERVICE - DirLab - Repair'' @ [CHR 0x0A] @
     ''(J2)ACME 07/29/2025 2.00 - Overtime - TechOT - SERVICE - DirLab - Repair'' @ [CHR 0x0A] @
     ''Employee Totals 3.50'' @ [CHR 0x0A] @
     ''Jane Doe - 202'' @ [CHR 0x0A] @
     ''(J3)BETA 07/28/2025 8.00 - Regular - PMTECH - PM - DirLab - Maintenance'' @ [CHR 0x0A] @
     ''(J4)BETA 07/30/2025 4.25 - Regular - Tech - INSTALL - DirLab - Install'' @ [CHR 0x0A] @
     ''Employee Totals 12.25''"

text \<open>One employee and one entry on four lines whose hours are zero.\<close>

definition zeroHoursText :: string where
  "zeroHoursText =
     ''John Smith - 101'' @ [CHR 0x0A] @
     ''(J1)ACME'' @ [CHR 0x0A] @
     ''07/28/2025'' @ [CHR 0x0A] @
     ''0.00'' @ [CHR 0x0A] @
     ''Regular - Tech - SERVICE - DirLab - Repair''"

text \<open>
  A line of report totals that has the form of an employee header, with an entry after
  it: on one line, and on four lines.
\<close>

definition totalsHeaderText_sl :: string where
  "totalsHeaderText_sl =
     ''John Smith - 101'' @ [CHR 0x0A] @
     ''Report Totals - 5'' @ [CHR 0x0A] @
     ''(J9)ACME 07/28/2025 1.50 - Regular - Tech - SERVICE - DirLab - Repair''"

definition totalsHeaderText_ml :: string where
  "totalsHeaderText_ml =
     ''John Smith - 101'' @ [CHR 0x0A] @
     ''Report Totals - 5'' @ [CHR 0x0A] @
     ''(J9)ACME'' @ [CHR 0x0A] @
     ''07/28/2025'' @ [CHR 0x0A] @
     ''1.50'' @ [CHR 0x0A] @
     ''Regular - Tech - SERVICE - DirLab - Repair''"

text \<open>
  A line that contains \<open>Report Totals\<close> and opens a job code, followed by the three
  lines of an entry.
\<close>

definition totalsJobText_ml :: string where
  "totalsJobText_ml =
     ''John Smith - 101'' @ [CHR 0x0A] @
     ''(J9)Report Totals'' @ [CHR 0x0A] @
     ''07/28/2025'' @ [CHR 0x0A] @
     ''1.50'' @ [CHR 0x0A] @
     ''Regular - Tech - SERVICE - DirLab - Repair''"

text \<open>
  A report whose line of report totals is followed by another employee and entry, on one
  line and on four lines.
\<close>

definition truncatedText_sl :: string where
  "truncatedText_sl =
     ''John Smith - 101'' @ [CHR 0x0A] @
     ''(J1)ACME 07/28/2025 1.50 - Regular - Tech - SERVICE - DirLab - Repair'' @ [CHR 0x0A] @
     ''Report Totals 1.50'' @ [CHR 0x0A] @
     ''Jane Doe - 202'' @ [CHR 0x0A] @
     ''(J3)BETA 07/28/2025 8.00 - Regular - PMTECH - PM - DirLab - Maintenance''"

definition linesAfterTotals_ml :: "string list" where
  "linesAfterTotals_ml =
     [''Jane Doe - 202'', ''(J3)BETA'', ''07/28/2025'', ''8.00'',
      ''Regular - PMTECH - PM - DirLab - Maintenance'']"

section \<open>Kinds of lines\<close>

text \<open>
  A valid time-entry line of the one-line layout, and the entry it holds: a line without
  a line feed that is not empty once trimmed, is not an employee header, names neither
  totals, holds a date, and from which \<^verbatim>\<open>parseTimeEntry\<close> returns an entry.
\<close>

definition entryLine_sl :: "string \<Rightarrow> entry option" where
  "entryLine_sl l =
     (if CHR 0x0A \<notin> set l \<and> trim l \<noteq> [] \<and> employeeMatch_sl (trim l) = None \<and>
         \<not> includesStr (trim l) ''Employee Totals'' \<and> \<not> includesStr (trim l) ''Report Totals''
      then (case dateMatch (trim l) of Some d \<Rightarrow> parseTimeEntry (trim l) d | None \<Rightarrow> None)
      else None)"

text \<open>A line of employee totals: it names them, and is neither a header nor the end.\<close>

definition totalsLine_sl :: "string \<Rightarrow> bool" where
  "totalsLine_sl l =
     (CHR 0x0A \<notin> set l \<and> includesStr (trim l) ''Employee Totals'' \<and>
      employeeMatch_sl (trim l) = None \<and> \<not> includesStr (trim l) ''Report Totals'')"

text \<open>An entry without the pay period and the report date it was saved with.\<close>

definition unstamped :: "entry \<Rightarrow> entry" where
  "unstamped e = e\<lparr>payPeriodId := None, reportDate := None\<rparr>"

text \<open>The state holds no entry without hours, buffered or saved.\<close>

definition hoursPositive :: "pstate \<Rightarrow> bool" where
  "hoursPositive st =
     (list_all (\<lambda>e. 0 < hours e) (employeeEntries st) \<and>
      list_all (\<lambda>e. 0 < hours e) (allEntries st))"

section \<open>Predicates of the statements\<close>

text \<open>
  A change that changes something; a change that rule 5 did not record; an output entry
  that differs from the input entry in pay type and labor rate at most.
\<close>

definition differs :: "change \<Rightarrow> bool" where
  "differs c = (originalValue c \<noteq> correctedValue c)"

definition noRule5 :: "change \<Rightarrow> bool" where
  "noRule5 c = (rule c \<noteq> ''Rule 5: Call Work Labor Rate'')"

definition sameButPay :: "entry \<Rightarrow> entry \<Rightarrow> bool" where
  "sameButPay e e' = (e'\<lparr>payType := payType e, laborRate := laborRate e\<rparr> = e)"

text \<open>
  The sixth condition of \<^verbatim>\<open>validateEntry\<close>: the description says no bill and the
  labor rate, not empty, lacks the suffix.
\<close>

definition noBillPending :: "entry \<Rightarrow> bool" where
  "noBillPending e =
     (description e \<noteq> [] \<and> includesStr (toLowerCase (description e)) ''no bill'' \<and>
      laborRate e \<noteq> [] \<and> \<not> endsWith (toUpperCase (laborRate e)) ''NB'')"

text \<open>The condition under which each rule writes to the entry it is given.\<close>

definition rule1_fires :: "entry \<Rightarrow> bool" where
  "rule1_fires e = (costCategory e = ''TechUnapplyd'' \<and> payType e \<noteq> ''Unapplied'')"

definition rule2_fires :: "entry \<Rightarrow> bool" where
  "rule2_fires e =
     ((toUpperCase (costCode e) = ''SERVICE'' \<or> toUpperCase (costCode e) = ''INSTALL'') \<and>
      laborRate e \<notin> set SERVICE_INSTALL_LABOR_RATES)"

definition rule3_fires :: "entry \<Rightarrow> bool" where
  "rule3_fires e =
     (toUpperCase (costCode e) \<in> set [''PM'', ''PMF'', ''FTPM''] \<and>
      laborRate e \<notin> set PM_LABOR_RATES)"

definition rule4_fires :: "entry \<Rightarrow> bool" where
  "rule4_fires e =
     (isSunday (date e) \<and>
      (payType e \<noteq> ''Double Time'' \<or> \<not> includesStr (toUpperCase (laborRate e)) ''PREM''))"

definition rule5_fires :: "entry \<Rightarrow> bool" where
  "rule5_fires e =
     (payType e = ''Call'' \<and> \<not> includesStr (toUpperCase (laborRate e)) ''OT'')"

definition rule6_fires :: "entry \<Rightarrow> bool" where
  "rule6_fires e = (noBillPending e \<and> rule6_correctedRate (laborRate e) \<noteq> laborRate e)"

definition rule7_fires :: "entry \<Rightarrow> bool" where
  "rule7_fires e =
     (toUpperCase (costCode e) \<in> set OFFICE_COST_CODES \<and> payType e \<noteq> ''Regular'')"



section \<open>Evaluation of the definitions\<close>

lemmas table_defs = SERVICE_INSTALL_LABOR_RATES_def PM_LABOR_RATES_def OFFICE_COST_CODES_def

lemmas case_defs = toUpperCase_def toLowerCase_def toUpperChar_def toLowerChar_def

lemmas calendar_defs = isSunday_def moment_def dateFields_def isDigit_def digitVal_def day_def
  daysInMonth_def isLeapYear_def

lemmas engine_defs = applyRule1_TechUnapplied_def applyRule2_ServiceInstallRates_def
  applyRule3_PMRates_def applyRule4_SundayPremium_def applyRule5_CallWork_def
  applyRule6_NoBillDetection_def applyRule7_OfficeOverride_def

lemmas rule_defs = engine_defs rule4_correctedRate_def rule5_correctedRate_def
  rule6_correctedRate_def changeRecord_def endsWith_def

lemma startsWith_Cons:
  "startsWith s (p # ps) = (case s of [] \<Rightarrow> False | c # cs \<Rightarrow> c = p \<and> startsWith cs ps)"
  by (cases s) simp_all

lemma toUpperCase_Nil: "toUpperCase [] = []"
  by (simp add: toUpperCase_def)

lemma sunday_2025_08_03: "isSunday ''08/03/2025''"
  by (simp add: calendar_defs)

lemma monday_2025_08_04: "\<not> isSunday ''08/04/2025''"
  by (simp add: calendar_defs)

section \<open>The loop of applyRules\<close>

lemma loop_changes:
  "changes (applyRules_loop es acc) = changes acc @ concat (map (\<lambda>e. snd (correctEntry e)) es)"
  by (induction es arbitrary: acc) (simp_all add: split_beta)

lemma loop_corrected:
  "correctedData (applyRules_loop es acc) =
     correctedData acc @ map (\<lambda>e. fst (correctEntry e)) es"
  by (induction es arbitrary: acc) (simp_all add: split_beta)

lemma applyRules_correctedData:
  "correctedData (applyRules es) = map (\<lambda>e. fst (correctEntry e)) es"
  by (simp add: applyRules_def loop_corrected)

lemma applyRules_changes:
  "changes (applyRules es) = concat (map (\<lambda>e. snd (correctEntry e)) es)"
  by (simp add: applyRules_def loop_changes)

lemma applyRules_single:
  "applyRules [e] = \<lparr>correctedData = [fst (correctEntry e)], changes = snd (correctEntry e)\<rparr>"
  by (simp add: applyRules_def split_beta)

section \<open>The rates the rules write\<close>

lemma rule4_correctedRate_PREM: "includesStr (toUpperCase (rule4_correctedRate c)) ''PREM''"
  by (simp add: rule4_correctedRate_def case_defs)

lemma rule4_correctedRate_nonempty: "rule4_correctedRate c \<noteq> []"
  by (simp add: rule4_correctedRate_def)

lemma rule4_rate_differs:
  "r = [] \<or> \<not> includesStr (toUpperCase r) ''PREM'' \<Longrightarrow> r \<noteq> rule4_correctedRate c"
  using rule4_correctedRate_PREM [of c] rule4_correctedRate_nonempty [of c] by auto

lemma rule4_table:
  "(startsWith u ''WN '' \<longrightarrow> rule4_correctedRate u = ''WN PREM'') \<and>
   (startsWith u ''SCH_'' \<or> startsWith u ''SCH '' \<longrightarrow> rule4_correctedRate u = ''SCH PREM'') \<and>
   (startsWith u ''MN '' \<or> startsWith u ''MNTECH'' \<longrightarrow> rule4_correctedRate u = ''MN PREM'') \<and>
   (\<not> startsWith u ''WN '' \<and> \<not> startsWith u ''SCH_'' \<and> \<not> startsWith u ''SCH '' \<and>
    \<not> startsWith u ''MN '' \<and> \<not> startsWith u ''MNTECH'' \<longrightarrow> rule4_correctedRate u = ''PREM'')"
  by (auto simp add: rule4_correctedRate_def startsWith_Cons split: list.splits)

lemma rule5_correctedRate_OT: "includesStr (toUpperCase (rule5_correctedRate c)) ''OT''"
  by (simp add: rule5_correctedRate_def case_defs)

lemma rule5_correctedRate_nonempty: "rule5_correctedRate c \<noteq> []"
  by (simp add: rule5_correctedRate_def)

lemma rule5_rate_differs:
  "\<not> includesStr (if r \<noteq> [] then toUpperCase r else []) ''OT'' \<Longrightarrow>
   r \<noteq> rule5_correctedRate (if r \<noteq> [] then toUpperCase r else [])"
  using rule5_correctedRate_OT [of "if r \<noteq> [] then toUpperCase r else []"]
    rule5_correctedRate_nonempty [of "if r \<noteq> [] then toUpperCase r else []"]
  by (metis (full_types))

lemma rule6_correctedRate_NB:
  "rule6_correctedRate c \<noteq> c \<Longrightarrow> endsWith (toUpperCase (rule6_correctedRate c)) ''NB''"
  by (auto simp add: rule6_correctedRate_def case_defs endsWith_def Let_def split: if_splits)

text \<open>
  The chain of rule 5 tests the branch prefixes before it tests for a helper rate, so
  two of the helper variants it names are never its result.
\<close>

lemma rule5_helper_variants_unreachable:
  "rule5_correctedRate c \<noteq> ''WN HELPEROT'' \<and> rule5_correctedRate c \<noteq> ''MN HELPEROT''"
  by (simp add: rule5_correctedRate_def)

lemma rule5_wn_tech:
  "payType e = ''Call'' \<Longrightarrow> laborRate e = ''WN TECH'' \<Longrightarrow>
   laborRate (fst (applyRule5_CallWork e chs)) = ''WN TECHOT''"
  by (simp add: rule_defs case_defs Let_def)

section \<open>Change records\<close>

lemma rule1_differs:
  "list_all differs chs \<Longrightarrow> list_all differs (snd (applyRule1_TechUnapplied e chs))"
  by (simp add: applyRule1_TechUnapplied_def differs_def changeRecord_def)

lemma Tech_allowed: "''Tech'' \<in> set SERVICE_INSTALL_LABOR_RATES"
  by (simp add: table_defs)

lemma PMTECH_allowed: "''PMTECH'' \<in> set PM_LABOR_RATES"
  by (simp add: table_defs)

lemma rule2_differs:
  "list_all differs chs \<Longrightarrow> list_all differs (snd (applyRule2_ServiceInstallRates e chs))"
  using Tech_allowed
  by (auto simp add: applyRule2_ServiceInstallRates_def differs_def changeRecord_def Let_def)

lemma rule3_differs:
  "list_all differs chs \<Longrightarrow> list_all differs (snd (applyRule3_PMRates e chs))"
  using PMTECH_allowed
  by (auto simp add: applyRule3_PMRates_def differs_def changeRecord_def Let_def)

lemma rule4_differs:
  "list_all differs chs \<Longrightarrow> list_all differs (snd (applyRule4_SundayPremium e chs))"
  by (simp add: applyRule4_SundayPremium_def differs_def changeRecord_def Let_def
      rule4_rate_differs)

lemma rule5_differs:
  "list_all differs chs \<Longrightarrow> list_all differs (snd (applyRule5_CallWork e chs))"
  by (simp add: applyRule5_CallWork_def differs_def changeRecord_def Let_def)

lemma rule6_differs:
  "list_all differs chs \<Longrightarrow> list_all differs (snd (applyRule6_NoBillDetection e chs))"
  by (simp add: applyRule6_NoBillDetection_def differs_def changeRecord_def Let_def)

lemma rule7_differs:
  "list_all differs chs \<Longrightarrow> list_all differs (snd (applyRule7_OfficeOverride e chs))"
  by (auto simp add: applyRule7_OfficeOverride_def differs_def changeRecord_def Let_def)

lemma correctEntry_differs: "list_all differs (snd (correctEntry e))"
  unfolding correctEntry_def
  by (simp add: split_beta Let_def rule1_differs rule2_differs rule3_differs rule4_differs
      rule5_differs rule6_differs rule7_differs)

text \<open>
  Claim C10. Every change record that \<^verbatim>\<open>applyRules\<close> emits has an original value
  different from its corrected value: no rule records a change for a field that already
  holds the value the rule writes.
\<close>

theorem applyRules_changes_differ:
  "c \<in> set (changes (applyRules es)) \<Longrightarrow> originalValue c \<noteq> correctedValue c"
  using correctEntry_differs
  by (auto simp: applyRules_changes list_all_iff differs_def)

text \<open>
  The Sunday entry makes the engine record changes, and the first of them changes its
  field.
\<close>

theorem applyRules_changes_differ_witness:
  "changes (applyRules [sundayEntry]) \<noteq> [] \<and>
   originalValue (changes (applyRules [sundayEntry]) ! 0) \<noteq>
   correctedValue (changes (applyRules [sundayEntry]) ! 0)"
proof -
  have ne: "changes (applyRules [sundayEntry]) \<noteq> []"
    by (simp add: applyRules_single)
      (simp add: correctEntry_def sundayEntry_def rule_defs table_defs case_defs Let_def
        sunday_2025_08_03)
  then have "changes (applyRules [sundayEntry]) ! 0 \<in> set (changes (applyRules [sundayEntry]))"
    by simp
  from applyRules_changes_differ [OF this] ne show ?thesis by simp
qed

section \<open>The fields the engine leaves alone\<close>

lemma sameButPay_refl: "sameButPay e e"
  by (simp add: sameButPay_def)

lemma sameButPay_payType: "sameButPay e e' \<Longrightarrow> sameButPay e (e'\<lparr>payType := p\<rparr>)"
  by (simp add: sameButPay_def)

lemma sameButPay_laborRate: "sameButPay e e' \<Longrightarrow> sameButPay e (e'\<lparr>laborRate := r\<rparr>)"
  by (simp add: sameButPay_def)

lemmas sameButPay_intros = sameButPay_payType sameButPay_laborRate

lemma rule1_frame: "sameButPay e0 e \<Longrightarrow> sameButPay e0 (fst (applyRule1_TechUnapplied e chs))"
  by (simp add: applyRule1_TechUnapplied_def sameButPay_intros)

lemma rule2_frame:
  "sameButPay e0 e \<Longrightarrow> sameButPay e0 (fst (applyRule2_ServiceInstallRates e chs))"
  by (simp add: applyRule2_ServiceInstallRates_def Let_def sameButPay_intros)

lemma rule3_frame: "sameButPay e0 e \<Longrightarrow> sameButPay e0 (fst (applyRule3_PMRates e chs))"
  by (simp add: applyRule3_PMRates_def Let_def sameButPay_intros)

lemma rule4_frame: "sameButPay e0 e \<Longrightarrow> sameButPay e0 (fst (applyRule4_SundayPremium e chs))"
  by (simp add: applyRule4_SundayPremium_def Let_def sameButPay_intros)

lemma rule5_frame: "sameButPay e0 e \<Longrightarrow> sameButPay e0 (fst (applyRule5_CallWork e chs))"
  by (simp add: applyRule5_CallWork_def Let_def sameButPay_intros)

lemma rule6_frame: "sameButPay e0 e \<Longrightarrow> sameButPay e0 (fst (applyRule6_NoBillDetection e chs))"
  by (simp add: applyRule6_NoBillDetection_def Let_def sameButPay_intros)

lemma rule7_frame: "sameButPay e0 e \<Longrightarrow> sameButPay e0 (fst (applyRule7_OfficeOverride e chs))"
  by (simp add: applyRule7_OfficeOverride_def Let_def sameButPay_intros)

lemma correctEntry_frame: "sameButPay e (fst (correctEntry e))"
  unfolding correctEntry_def
  by (simp add: split_beta Let_def rule1_frame rule2_frame rule3_frame rule4_frame rule5_frame
      rule6_frame rule7_frame sameButPay_refl)

section \<open>Rule 4 on a Sunday\<close>

lemma rule4_on_sunday:
  "isSunday (date e) \<Longrightarrow>
   fst (applyRule4_SundayPremium e chs) =
     e\<lparr>payType := ''Double Time'',
       laborRate := (if includesStr (toUpperCase (laborRate e)) ''PREM'' then laborRate e
                     else rule4_correctedRate (toUpperCase (laborRate e)))\<rparr>"
  by (auto simp add: applyRule4_SundayPremium_def Let_def case_defs rule4_correctedRate_def)

text \<open>
  Claim C3. For an entry whose date is a Sunday, rule 4 leaves the pay type at
  \<open>Double Time\<close>; a labor rate that contains \<open>PREM\<close> in upper case stays, and any
  other is rewritten to the premium rate of its branch: \<open>WN PREM\<close> after the prefix
  \<open>WN \<close>, \<open>SCH PREM\<close> after \<open>SCH_\<close> or \<open>SCH \<close>, \<open>MN PREM\<close> after \<open>MN \<close> or
  \<open>MNTECH\<close>, and \<open>PREM\<close> otherwise, the prefixes being read on the rate in upper
  case. In particular an entry dated 08/03/2025 with pay type \<open>Regular\<close> and labor rate
  \<open>SCH_TECH\<close> ends with \<open>Double Time\<close> and \<open>SCH PREM\<close>.
\<close>

theorem rule4_sunday_premium:
  assumes "e' = fst (applyRule4_SundayPremium e chs)" and "u = toUpperCase (laborRate e)"
  shows "(isSunday (date e) \<longrightarrow>
            payType e' = ''Double Time'' \<and>
            (includesStr u ''PREM'' \<longrightarrow> laborRate e' = laborRate e) \<and>
            (\<not> includesStr u ''PREM'' \<longrightarrow>
               (startsWith u ''WN '' \<longrightarrow> laborRate e' = ''WN PREM'') \<and>
               (startsWith u ''SCH_'' \<or> startsWith u ''SCH '' \<longrightarrow> laborRate e' = ''SCH PREM'') \<and>
               (startsWith u ''MN '' \<or> startsWith u ''MNTECH'' \<longrightarrow> laborRate e' = ''MN PREM'') \<and>
               (\<not> startsWith u ''WN '' \<and> \<not> startsWith u ''SCH_'' \<and> \<not> startsWith u ''SCH '' \<and>
                \<not> startsWith u ''MN '' \<and> \<not> startsWith u ''MNTECH'' \<longrightarrow>
                  laborRate e' = ''PREM''))) \<and>
         (date e = ''08/03/2025'' \<and> payType e = ''Regular'' \<and> laborRate e = ''SCH_TECH'' \<longrightarrow>
            payType e' = ''Double Time'' \<and> laborRate e' = ''SCH PREM'')"
proof (intro conjI impI)
  assume sun: "isSunday (date e)"
  show "payType e' = ''Double Time''"
    using sun assms by (simp add: rule4_on_sunday)
  show "laborRate e' = laborRate e" if "includesStr u ''PREM''"
    using sun assms that by (simp add: rule4_on_sunday)
  assume np: "\<not> includesStr u ''PREM''"
  have r: "laborRate e' = rule4_correctedRate u"
    using sun assms np by (simp add: rule4_on_sunday)
  show "laborRate e' = ''WN PREM''" if "startsWith u ''WN ''"
    using r that rule4_table [of u] by simp
  show "laborRate e' = ''SCH PREM''" if "startsWith u ''SCH_'' \<or> startsWith u ''SCH ''"
    using r that rule4_table [of u] by simp
  show "laborRate e' = ''MN PREM''" if "startsWith u ''MN '' \<or> startsWith u ''MNTECH''"
    using r that rule4_table [of u] by simp
  show "laborRate e' = ''PREM''"
    if "\<not> startsWith u ''WN '' \<and> \<not> startsWith u ''SCH_'' \<and> \<not> startsWith u ''SCH '' \<and>
        \<not> startsWith u ''MN '' \<and> \<not> startsWith u ''MNTECH''"
    using r that rule4_table [of u] by simp
next
  assume a: "date e = ''08/03/2025'' \<and> payType e = ''Regular'' \<and> laborRate e = ''SCH_TECH''"
  then have sun: "isSunday (date e)" by (simp add: sunday_2025_08_03)
  show "payType e' = ''Double Time''"
    using sun assms by (simp add: rule4_on_sunday)
  show "laborRate e' = ''SCH PREM''"
    using sun assms a by (simp add: rule4_on_sunday) (simp add: case_defs rule4_correctedRate_def)
qed

text \<open>The entry of the claim: 3 August 2025 is a Sunday, and rule 4 rewrites both fields.\<close>

theorem rule4_sunday_premium_witness:
  "isSunday (date sundayEntry) \<and>
   payType sundayEntry = ''Regular'' \<and> laborRate sundayEntry = ''SCH_TECH'' \<and>
   payType (fst (applyRule4_SundayPremium sundayEntry [])) = ''Double Time'' \<and>
   laborRate (fst (applyRule4_SundayPremium sundayEntry [])) = ''SCH PREM''"
  using rule4_sunday_premium [of "fst (applyRule4_SundayPremium sundayEntry [])" sundayEntry "[]"
      "toUpperCase (laborRate sundayEntry)"]
  by (simp add: sundayEntry_def sunday_2025_08_03)

text \<open>
  The earlier rule 4 of \<^verbatim>\<open>backend/services/ruleEngine.js\<close> does not keep the
  branch: on the same entry it writes \<open>PREM\<close>.
\<close>

lemma rule4_plain_sunday:
  "laborRate (fst (applyRule4_SundayPremium_plain sundayEntry [])) = ''PREM''"
  by (simp add: applyRule4_SundayPremium_plain_def sundayEntry_def sunday_2025_08_03)

section \<open>Rule 5 and the helper rates\<close>

text \<open>
  Claim C5. Rule 5 is to rewrite the labor rate of a call entry to the overtime rate of
  the same branch and the same kind, helper or technician. For the helper rate of the
  branch WN the engine writes the technician's overtime rate: the test for the prefix
  \<open>WN \<close> comes before the test for \<open>HELPER\<close>, and the branch that would write
  \<open>WN HELPEROT\<close> is never reached.
\<close>

theorem rule5_wn_helper:
  "payType helperCallEntry = ''Call'' \<and> laborRate helperCallEntry = ''WN HELPER'' \<and>
   laborRate (fst (applyRule5_CallWork helperCallEntry [])) = ''WN TECHOT''"
  by (simp add: helperCallEntry_def rule_defs case_defs Let_def)

section \<open>Running the engine twice\<close>

lemma correctEntry_pmCall:
  "fst (correctEntry pmCallEntry) = pmCallEntry\<lparr>laborRate := ''TechOT''\<rparr>"
  by (simp add: correctEntry_def pmCallEntry_def rule_defs table_defs case_defs Let_def
      monday_2025_08_04)

text \<open>
  Claim C1, as stated, fails. A call entry with cost code PM and labor rate PMTECH passes
  rule 3 and is rewritten to TechOT by rule 5; on the second run rule 3 rejects TechOT,
  so the second run records changes.
\<close>

theorem applyRules_not_idempotent:
  "changes (applyRules [correctedData (applyRules [pmCallEntry]) ! 0]) \<noteq> []"
  by (simp add: applyRules_single correctEntry_pmCall)
    (simp add: correctEntry_def pmCallEntry_def rule_defs table_defs case_defs Let_def
      monday_2025_08_04)

text \<open>
  Claim C1, amended. Each of the seven rules is idempotent on its own: run on its own
  output with an empty list of changes, it records nothing and returns the entry as it
  is. The guard of each rule is false on what the rule has written.
\<close>

theorem each_rule_idempotent:
  "applyRule1_TechUnapplied (fst (applyRule1_TechUnapplied e [])) [] =
     (fst (applyRule1_TechUnapplied e []), []) \<and>
   applyRule2_ServiceInstallRates (fst (applyRule2_ServiceInstallRates e [])) [] =
     (fst (applyRule2_ServiceInstallRates e []), []) \<and>
   applyRule3_PMRates (fst (applyRule3_PMRates e [])) [] =
     (fst (applyRule3_PMRates e []), []) \<and>
   applyRule4_SundayPremium (fst (applyRule4_SundayPremium e [])) [] =
     (fst (applyRule4_SundayPremium e []), []) \<and>
   applyRule5_CallWork (fst (applyRule5_CallWork e [])) [] =
     (fst (applyRule5_CallWork e []), []) \<and>
   applyRule6_NoBillDetection (fst (applyRule6_NoBillDetection e [])) [] =
     (fst (applyRule6_NoBillDetection e []), []) \<and>
   applyRule7_OfficeOverride (fst (applyRule7_OfficeOverride e [])) [] =
     (fst (applyRule7_OfficeOverride e []), [])"
proof (intro conjI)
  show "applyRule1_TechUnapplied (fst (applyRule1_TechUnapplied e [])) [] =
     (fst (applyRule1_TechUnapplied e []), [])"
    by (simp add: applyRule1_TechUnapplied_def)
  show "applyRule2_ServiceInstallRates (fst (applyRule2_ServiceInstallRates e [])) [] =
     (fst (applyRule2_ServiceInstallRates e []), [])"
    by (simp add: applyRule2_ServiceInstallRates_def Let_def Tech_allowed)
  show "applyRule3_PMRates (fst (applyRule3_PMRates e [])) [] =
     (fst (applyRule3_PMRates e []), [])"
    by (simp add: applyRule3_PMRates_def Let_def PMTECH_allowed)
  show "applyRule4_SundayPremium (fst (applyRule4_SundayPremium e [])) [] =
     (fst (applyRule4_SundayPremium e []), [])"
    by (simp add: applyRule4_SundayPremium_def Let_def rule4_correctedRate_PREM
        rule4_correctedRate_nonempty)
  show "applyRule5_CallWork (fst (applyRule5_CallWork e [])) [] =
     (fst (applyRule5_CallWork e []), [])"
    by (simp add: applyRule5_CallWork_def Let_def rule5_correctedRate_OT
        rule5_correctedRate_nonempty)
  show "applyRule6_NoBillDetection (fst (applyRule6_NoBillDetection e [])) [] =
     (fst (applyRule6_NoBillDetection e []), [])"
    by (simp add: applyRule6_NoBillDetection_def Let_def rule6_correctedRate_NB)
  show "applyRule7_OfficeOverride (fst (applyRule7_OfficeOverride e [])) [] =
     (fst (applyRule7_OfficeOverride e []), [])"
    by (simp add: applyRule7_OfficeOverride_def Let_def)
qed

text \<open>
  Rule 5 on the call entry: the first run writes TechOT and records it, the second run
  of the rule records nothing.
\<close>

theorem each_rule_idempotent_witness:
  "snd (applyRule5_CallWork pmCallEntry []) \<noteq> [] \<and>
   laborRate (fst (applyRule5_CallWork pmCallEntry [])) = ''TechOT'' \<and>
   snd (applyRule5_CallWork (fst (applyRule5_CallWork pmCallEntry [])) []) = []"
  using each_rule_idempotent [of pmCallEntry]
  by (simp add: pmCallEntry_def rule_defs case_defs Let_def)

section \<open>Rule 1 before rule 5\<close>

lemma rule1_unapplied:
  "costCategory e = ''TechUnapplyd'' \<Longrightarrow> payType e = ''Call'' \<Longrightarrow>
   fst (applyRule1_TechUnapplied e []) = e\<lparr>payType := ''Unapplied''\<rparr> \<and>
   list_all noRule5 (snd (applyRule1_TechUnapplied e []))"
  by (simp add: applyRule1_TechUnapplied_def noRule5_def changeRecord_def)

lemma rule2_keeps:
  "payType (fst (applyRule2_ServiceInstallRates e chs)) = payType e \<and>
   date (fst (applyRule2_ServiceInstallRates e chs)) = date e \<and>
   costCode (fst (applyRule2_ServiceInstallRates e chs)) = costCode e \<and>
   (list_all noRule5 chs \<longrightarrow> list_all noRule5 (snd (applyRule2_ServiceInstallRates e chs)))"
  by (simp add: applyRule2_ServiceInstallRates_def Let_def noRule5_def changeRecord_def)

lemma rule3_keeps:
  "payType (fst (applyRule3_PMRates e chs)) = payType e \<and>
   date (fst (applyRule3_PMRates e chs)) = date e \<and>
   costCode (fst (applyRule3_PMRates e chs)) = costCode e \<and>
   (list_all noRule5 chs \<longrightarrow> list_all noRule5 (snd (applyRule3_PMRates e chs)))"
  by (simp add: applyRule3_PMRates_def Let_def noRule5_def changeRecord_def)

lemma rule4_keeps:
  "payType (fst (applyRule4_SundayPremium e chs)) =
     (if isSunday (date e) then ''Double Time'' else payType e) \<and>
   costCode (fst (applyRule4_SundayPremium e chs)) = costCode e \<and>
   (list_all noRule5 chs \<longrightarrow> list_all noRule5 (snd (applyRule4_SundayPremium e chs)))"
  by (simp add: applyRule4_SundayPremium_def Let_def noRule5_def changeRecord_def)

lemma rule5_skips: "payType e \<noteq> ''Call'' \<Longrightarrow> applyRule5_CallWork e chs = (e, chs)"
  by (simp add: applyRule5_CallWork_def)

lemma rule6_keeps:
  "payType (fst (applyRule6_NoBillDetection e chs)) = payType e \<and>
   costCode (fst (applyRule6_NoBillDetection e chs)) = costCode e \<and>
   (list_all noRule5 chs \<longrightarrow> list_all noRule5 (snd (applyRule6_NoBillDetection e chs)))"
  by (simp add: applyRule6_NoBillDetection_def Let_def noRule5_def changeRecord_def)

lemma rule7_keeps:
  "payType (fst (applyRule7_OfficeOverride e chs)) =
     (if toUpperCase (costCode e) \<in> set OFFICE_COST_CODES then ''Regular'' else payType e) \<and>
   (list_all noRule5 chs \<longrightarrow> list_all noRule5 (snd (applyRule7_OfficeOverride e chs)))"
  by (simp add: applyRule7_OfficeOverride_def Let_def noRule5_def changeRecord_def)

text \<open>
  Claim C6, as stated, fails. An entry with cost category TechUnapplyd, pay type Call and
  the office cost code 1COAD ends with pay type Regular: rule 1 writes Unapplied, and
  rule 7, which runs last, overrides it.
\<close>

theorem rule1_precedence_counterexample:
  "costCategory officeUnappliedEntry = ''TechUnapplyd'' \<and>
   payType officeUnappliedEntry = ''Call'' \<and>
   payType (correctedData (applyRules [officeUnappliedEntry]) ! 0) = ''Regular''"
  by (simp add: applyRules_single)
    (simp add: correctEntry_def officeUnappliedEntry_def rule_defs table_defs case_defs Let_def
      monday_2025_08_04)

text \<open>
  Claim C6, amended. For an entry with cost category TechUnapplyd and pay type Call,
  rule 1 runs before rule 5, so the pay type is no longer Call when rule 5 is evaluated
  and rule 5 records no change. The final pay type is Unapplied unless a later rule
  overrides it: Double Time when the date is a Sunday (rule 4), and Regular when the cost
  code is an office code (rule 7, which runs last).
\<close>

theorem rule1_precedence:
  assumes "costCategory e = ''TechUnapplyd''" and "payType e = ''Call''"
  shows "payType (correctedData (applyRules [e]) ! 0) =
           (if toUpperCase (costCode e) \<in> set OFFICE_COST_CODES then ''Regular''
            else if isSunday (date e) then ''Double Time'' else ''Unapplied'') \<and>
         list_all (\<lambda>c. rule c \<noteq> ''Rule 5: Call Work Labor Rate'') (changes (applyRules [e]))"
proof -
  define e1 c1 where "e1 = fst (applyRule1_TechUnapplied e [])"
    and "c1 = snd (applyRule1_TechUnapplied e [])"
  define e2 c2 where "e2 = fst (applyRule2_ServiceInstallRates e1 c1)"
    and "c2 = snd (applyRule2_ServiceInstallRates e1 c1)"
  define e3 c3 where "e3 = fst (applyRule3_PMRates e2 c2)"
    and "c3 = snd (applyRule3_PMRates e2 c2)"
  define e4 c4 where "e4 = fst (applyRule4_SundayPremium e3 c3)"
    and "c4 = snd (applyRule4_SundayPremium e3 c3)"
  define e5 c5 where "e5 = fst (applyRule5_CallWork e4 c4)"
    and "c5 = snd (applyRule5_CallWork e4 c4)"
  define e6 c6 where "e6 = fst (applyRule6_NoBillDetection e5 c5)"
    and "c6 = snd (applyRule6_NoBillDetection e5 c5)"
  have ce: "correctEntry e = applyRule7_OfficeOverride e6 c6"
    by (simp add: correctEntry_def split_beta e1_def c1_def e2_def c2_def e3_def c3_def
        e4_def c4_def e5_def c5_def e6_def c6_def)
  have s1: "payType e1 = ''Unapplied''" "date e1 = date e" "costCode e1 = costCode e"
    "list_all noRule5 c1"
    using rule1_unapplied [OF assms] by (simp_all add: e1_def c1_def)
  have s2: "payType e2 = ''Unapplied''" "date e2 = date e" "costCode e2 = costCode e"
    "list_all noRule5 c2"
    using rule2_keeps [of e1 c1] s1 by (simp_all add: e2_def c2_def)
  have s3: "payType e3 = ''Unapplied''" "date e3 = date e" "costCode e3 = costCode e"
    "list_all noRule5 c3"
    using rule3_keeps [of e2 c2] s2 by (simp_all add: e3_def c3_def)
  have s4: "payType e4 = (if isSunday (date e) then ''Double Time'' else ''Unapplied'')"
    "costCode e4 = costCode e" "list_all noRule5 c4"
    using rule4_keeps [of e3 c3] s3 by (simp_all add: e4_def c4_def)
  have "payType e4 \<noteq> ''Call''" using s4 by simp
  then have "applyRule5_CallWork e4 c4 = (e4, c4)" by (rule rule5_skips)
  then have s5: "e5 = e4" "c5 = c4" by (simp_all add: e5_def c5_def)
  have s6: "payType e6 = (if isSunday (date e) then ''Double Time'' else ''Unapplied'')"
    "costCode e6 = costCode e" "list_all noRule5 c6"
    using rule6_keeps [of e5 c5] s4 s5 by (simp_all add: e6_def c6_def)
  have s7: "payType (fst (correctEntry e)) =
      (if toUpperCase (costCode e) \<in> set OFFICE_COST_CODES then ''Regular''
       else if isSunday (date e) then ''Double Time'' else ''Unapplied'')"
    "list_all noRule5 (snd (correctEntry e))"
    using rule7_keeps [of e6 c6] s6 by (simp_all add: ce)
  then show ?thesis
    by (simp add: applyRules_single noRule5_def [abs_def])
qed

text \<open>
  A call entry with cost category TechUnapplyd, a service cost code and a Monday date
  ends with pay type Unapplied.
\<close>

theorem rule1_precedence_witness:
  "costCategory unappliedCallEntry = ''TechUnapplyd'' \<and> payType unappliedCallEntry = ''Call'' \<and>
   payType (correctedData (applyRules [unappliedCallEntry]) ! 0) = ''Unapplied''"
  using rule1_precedence [of unappliedCallEntry]
  by (simp add: unappliedCallEntry_def monday_2025_08_04 table_defs case_defs)

section \<open>validateEntry and the rules\<close>

lemma rule1_cases:
  "applyRule1_TechUnapplied e chs = (e, chs) \<and> \<not> rule1_fires e \<or>
   snd (applyRule1_TechUnapplied e chs) \<noteq> [] \<and> rule1_fires e"
  by (simp add: applyRule1_TechUnapplied_def rule1_fires_def)

lemma rule2_cases:
  "applyRule2_ServiceInstallRates e chs = (e, chs) \<and> \<not> rule2_fires e \<or>
   snd (applyRule2_ServiceInstallRates e chs) \<noteq> [] \<and> rule2_fires e"
  by (simp add: applyRule2_ServiceInstallRates_def rule2_fires_def Let_def)

lemma rule3_cases:
  "applyRule3_PMRates e chs = (e, chs) \<and> \<not> rule3_fires e \<or>
   snd (applyRule3_PMRates e chs) \<noteq> [] \<and> rule3_fires e"
  by (simp add: applyRule3_PMRates_def rule3_fires_def Let_def)

lemma rule4_cases:
  "applyRule4_SundayPremium e chs = (e, chs) \<and> \<not> rule4_fires e \<or>
   snd (applyRule4_SundayPremium e chs) \<noteq> [] \<and> rule4_fires e"
  by (auto simp add: applyRule4_SundayPremium_def rule4_fires_def Let_def toUpperCase_Nil)

lemma rule5_cases:
  "applyRule5_CallWork e chs = (e, chs) \<and> \<not> rule5_fires e \<or>
   snd (applyRule5_CallWork e chs) \<noteq> [] \<and> rule5_fires e"
  using rule5_rate_differs [of "laborRate e"]
  by (auto simp add: applyRule5_CallWork_def rule5_fires_def Let_def toUpperCase_Nil)

lemma rule6_cases:
  "applyRule6_NoBillDetection e chs = (e, chs) \<and> \<not> rule6_fires e \<or>
   snd (applyRule6_NoBillDetection e chs) \<noteq> [] \<and> rule6_fires e"
  by (auto simp add: applyRule6_NoBillDetection_def rule6_fires_def noBillPending_def Let_def)

lemma rule7_cases:
  "applyRule7_OfficeOverride e chs = (e, chs) \<and> \<not> rule7_fires e \<or>
   snd (applyRule7_OfficeOverride e chs) \<noteq> [] \<and> rule7_fires e"
  by (simp add: applyRule7_OfficeOverride_def rule7_fires_def Let_def)

lemma rules_keep_changes:
  "chs \<noteq> [] \<Longrightarrow> snd (applyRule2_ServiceInstallRates e chs) \<noteq> []"
  "chs \<noteq> [] \<Longrightarrow> snd (applyRule3_PMRates e chs) \<noteq> []"
  "chs \<noteq> [] \<Longrightarrow> snd (applyRule4_SundayPremium e chs) \<noteq> []"
  "chs \<noteq> [] \<Longrightarrow> snd (applyRule5_CallWork e chs) \<noteq> []"
  "chs \<noteq> [] \<Longrightarrow> snd (applyRule6_NoBillDetection e chs) \<noteq> []"
  "chs \<noteq> [] \<Longrightarrow> snd (applyRule7_OfficeOverride e chs) \<noteq> []"
  by (simp_all add: engine_defs Let_def)
lemma correctEntry_no_change:
  "snd (correctEntry e) = [] \<longleftrightarrow>
     \<not> rule1_fires e \<and> \<not> rule2_fires e \<and> \<not> rule3_fires e \<and> \<not> rule4_fires e \<and>
     \<not> rule5_fires e \<and> \<not> rule6_fires e \<and> \<not> rule7_fires e"
proof (cases "rule1_fires e")
  case True
  then have "snd (applyRule1_TechUnapplied e []) \<noteq> []"
    using rule1_cases [of e "[]"] by auto
  then show ?thesis using True
    by (simp add: correctEntry_def split_beta rules_keep_changes)
next
  case f1: False
  then have r1: "applyRule1_TechUnapplied e [] = (e, [])"
    using rule1_cases [of e "[]"] by auto
  show ?thesis
  proof (cases "rule2_fires e")
    case True
    then have "snd (applyRule2_ServiceInstallRates e []) \<noteq> []"
      using rule2_cases [of e "[]"] by auto
    then show ?thesis using True
      by (simp add: correctEntry_def split_beta r1 rules_keep_changes)
  next
    case f2: False
    then have r2: "applyRule2_ServiceInstallRates e [] = (e, [])"
      using rule2_cases [of e "[]"] by auto
    show ?thesis
    proof (cases "rule3_fires e")
      case True
      then have "snd (applyRule3_PMRates e []) \<noteq> []"
        using rule3_cases [of e "[]"] by auto
      then show ?thesis using True
        by (simp add: correctEntry_def split_beta r1 r2 rules_keep_changes)
    next
      case f3: False
      then have r3: "applyRule3_PMRates e [] = (e, [])"
        using rule3_cases [of e "[]"] by auto
      show ?thesis
      proof (cases "rule4_fires e")
        case True
        then have "snd (applyRule4_SundayPremium e []) \<noteq> []"
          using rule4_cases [of e "[]"] by auto
        then show ?thesis using True
          by (simp add: correctEntry_def split_beta r1 r2 r3 rules_keep_changes)
      next
        case f4: False
        then have r4: "applyRule4_SundayPremium e [] = (e, [])"
          using rule4_cases [of e "[]"] by auto
        show ?thesis
        proof (cases "rule5_fires e")
          case True
          then have "snd (applyRule5_CallWork e []) \<noteq> []"
            using rule5_cases [of e "[]"] by auto
          then show ?thesis using True
            by (simp add: correctEntry_def split_beta r1 r2 r3 r4 rules_keep_changes)
        next
          case f5: False
          then have r5: "applyRule5_CallWork e [] = (e, [])"
            using rule5_cases [of e "[]"] by auto
          show ?thesis
          proof (cases "rule6_fires e")
            case True
            then have "snd (applyRule6_NoBillDetection e []) \<noteq> []"
              using rule6_cases [of e "[]"] by auto
            then show ?thesis using True
              by (simp add: correctEntry_def split_beta r1 r2 r3 r4 r5 rules_keep_changes)
          next
            case f6: False
            then have r6: "applyRule6_NoBillDetection e [] = (e, [])"
              using rule6_cases [of e "[]"] by auto
            show ?thesis
              using rule7_cases [of e "[]"] f1 f2 f3 f4 f5 f6
              by (auto simp add: correctEntry_def r1 r2 r3 r4 r5 r6)
          qed
        qed
      qed
    qed
  qed
qed

lemma validateEntry_no_issue:
  "validateEntry e = [] \<longleftrightarrow>
     \<not> rule1_fires e \<and> \<not> rule2_fires e \<and> \<not> rule3_fires e \<and> \<not> rule4_fires e \<and>
     \<not> rule5_fires e \<and> \<not> noBillPending e \<and> \<not> rule7_fires e"
  by (auto simp add: validateEntry_def Let_def rule1_fires_def rule2_fires_def rule3_fires_def
      rule4_fires_def rule5_fires_def noBillPending_def rule7_fires_def toUpperCase_Nil)

text \<open>
  Claim C7, as stated, fails. A no-bill entry with labor rate SHOP is flagged by
  \<^verbatim>\<open>validateEntry\<close>, whose sixth condition asks for the suffix NB on any rate, while
  rule 6 has no NB form for SHOP and leaves the entry as it is: an issue and no change.
\<close>

theorem validateEntry_mirror_counterexample:
  "validateEntry shopNoBillEntry \<noteq> [] \<and> changes (applyRules [shopNoBillEntry]) = []"
  by (simp add: applyRules_single)
    (simp add: validateEntry_def correctEntry_def shopNoBillEntry_def rule_defs table_defs
      case_defs Let_def monday_2025_08_04)

text \<open>
  Claim C7, amended. \<^verbatim>\<open>validateEntry\<close> only reads the entry, and its list of issues is
  empty exactly when \<^verbatim>\<open>applyRules\<close> records no change for the entry and the entry is
  not a no-bill entry whose labor rate, not empty, lacks the suffix NB. So an empty list
  of issues means no change, and a change means an issue; an issue without a change
  comes from the sixth condition alone, on a rate for which rule 6 has no NB form.
\<close>

theorem validateEntry_mirror:
  "validateEntry e = [] \<longleftrightarrow> changes (applyRules [e]) = [] \<and> \<not> noBillPending e"
  by (auto simp add: applyRules_single correctEntry_no_change validateEntry_no_issue
      rule6_fires_def)

text \<open>An entry that meets every rule: no change, no pending no-bill rate, no issue.\<close>

theorem validateEntry_mirror_witness:
  "changes (applyRules [compliantEntry]) = [] \<and> \<not> noBillPending compliantEntry \<and>
   validateEntry compliantEntry = []"
proof -
  have c: "changes (applyRules [compliantEntry]) = []"
    by (simp add: applyRules_single)
      (simp add: correctEntry_def compliantEntry_def rule_defs table_defs case_defs Let_def
        monday_2025_08_04)
  have n: "\<not> noBillPending compliantEntry"
    by (simp add: noBillPending_def compliantEntry_def case_defs)
  from c n validateEntry_mirror [of compliantEntry] show ?thesis by simp
qed

section \<open>The input objects are not written\<close>

lemma atRef_fresh:
  "atRef r (length h) (h @ [e], chs) = (h @ [fst (r e chs)], snd (r e chs))"
  by (simp add: atRef_def split_beta)

lemma correctEntry_store_eq:
  "correctEntry_store h a =
     (h @ [fst (correctEntry (h ! a))], length h, snd (correctEntry (h ! a)))"
proof -
  have step: "atRef r (length h) (h @ [fst p], snd p) =
      (h @ [fst (r (fst p) (snd p))], snd (r (fst p) (snd p)))" for r p
    by (rule atRef_fresh)
  show ?thesis
    by (simp add: correctEntry_store_def correctEntry_def Let_def atRef_fresh split_beta)
qed

lemma store_loop_eq:
  "\<forall>a \<in> set as. a < length h \<Longrightarrow>
   applyRules_store_loop as (h, out, chs) =
     (h @ map (\<lambda>a. fst (correctEntry (h ! a))) as,
      out @ [length h ..< length h + length as],
      chs @ concat (map (\<lambda>a. snd (correctEntry (h ! a))) as))"
proof (induction as arbitrary: h out chs)
  case Nil
  then show ?case by simp
next
  case (Cons a as)
  let ?h1 = "h @ [fst (correctEntry (h ! a))]"
  have v: "\<forall>b \<in> set as. b < length ?h1" using Cons.prems by auto
  have nth: "map (\<lambda>b. fst (correctEntry (?h1 ! b))) as = map (\<lambda>b. fst (correctEntry (h ! b))) as"
    "map (\<lambda>b. snd (correctEntry (?h1 ! b))) as = map (\<lambda>b. snd (correctEntry (h ! b))) as"
    using Cons.prems by (auto simp: nth_append)
  show ?case
    using Cons.IH [OF v] nth
    by (simp add: correctEntry_store_eq upt_rec [of "length h"] del: upt_Suc)
qed


lemma nth_fresh_refs:
  "map (nth (h @ xs)) [length h ..< length h + length xs] = xs"
  by (rule nth_equalityI) (simp_all add: nth_append)

lemma applyRules_store_eq:
  "\<forall>a \<in> set refs. a < length h \<Longrightarrow>
   applyRules_store h refs =
     (h @ correctedData (applyRules (map (nth h) refs)),
      [length h ..< length h + length refs],
      changes (applyRules (map (nth h) refs)))"
  by (simp add: applyRules_store_def store_loop_eq applyRules_correctedData applyRules_changes
      comp_def)

text \<open>
  Claim C9. \<^verbatim>\<open>applyRules\<close> does not write to the entries it is given. Run on a
  store and a list of references into it, it leaves every object of that store as it was,
  returns one new reference for each input reference, in the same order, and the object
  at each new reference agrees with the input object on every field but pay type and
  labor rate. The objects and the changes are those of the function on values.
\<close>

theorem applyRules_frame:
  assumes "\<forall>a \<in> set refs. a < length h"
    and "applyRules_store h refs = (h', out, chs)"
  shows "take (length h) h' = h \<and>
         length out = length refs \<and>
         (\<forall>i < length refs.
            length h \<le> out ! i \<and> out ! i < length h' \<and>
            (h' ! (out ! i))\<lparr>payType := payType (h ! (refs ! i)),
                             laborRate := laborRate (h ! (refs ! i))\<rparr> = h ! (refs ! i)) \<and>
         map (nth h') out = correctedData (applyRules (map (nth h) refs)) \<and>
         chs = changes (applyRules (map (nth h) refs))"
proof -
  let ?cd = "correctedData (applyRules (map (nth h) refs))"
  have eq: "h' = h @ ?cd" "out = [length h ..< length h + length refs]"
    "chs = changes (applyRules (map (nth h) refs))"
    using assms applyRules_store_eq [OF assms(1)] by simp_all
  have len: "length ?cd = length refs"
    by (simp add: applyRules_correctedData)
  have frame: "(h' ! (out ! i))\<lparr>payType := payType (h ! (refs ! i)),
      laborRate := laborRate (h ! (refs ! i))\<rparr> = h ! (refs ! i)" if "i < length refs" for i
    using that correctEntry_frame [of "h ! (refs ! i)"]
    by (simp add: eq applyRules_correctedData sameButPay_def)
  have m: "map (nth h') out = ?cd"
    using nth_fresh_refs [of h ?cd] by (simp add: eq len)
  show ?thesis
    using frame m by (simp add: eq len)
qed

text \<open>
  Two entries at the references 0 and 1: the corrected copies are allocated at 2 and 3,
  and the first two objects of the store are the inputs, unchanged.
\<close>

theorem applyRules_frame_witness:
  "applyRules_store [sundayEntry, pmCallEntry] [0, 1] =
     ([sundayEntry, pmCallEntry,
       sundayEntry\<lparr>payType := ''Double Time'', laborRate := ''SCH PREM''\<rparr>,
       pmCallEntry\<lparr>laborRate := ''TechOT''\<rparr>],
      [2, 3],
      changes (applyRules [sundayEntry, pmCallEntry])) \<and>
   take 2 (fst (applyRules_store [sundayEntry, pmCallEntry] [0, 1])) = [sundayEntry, pmCallEntry]"
proof -
  have v: "\<forall>a \<in> set [0, 1 :: nat]. a < length [sundayEntry, pmCallEntry]" by simp
  have c1: "fst (correctEntry sundayEntry) =
      sundayEntry\<lparr>payType := ''Double Time'', laborRate := ''SCH PREM''\<rparr>"
    by (simp add: correctEntry_def sundayEntry_def rule_defs table_defs case_defs Let_def
        sunday_2025_08_03)
  have s: "applyRules_store [sundayEntry, pmCallEntry] [0, 1] =
     ([sundayEntry, pmCallEntry,
       sundayEntry\<lparr>payType := ''Double Time'', laborRate := ''SCH PREM''\<rparr>,
       pmCallEntry\<lparr>laborRate := ''TechOT''\<rparr>],
      [2, 3],
      changes (applyRules [sundayEntry, pmCallEntry]))"
    by (subst applyRules_store_eq [OF v])
      (simp add: applyRules_correctedData c1 correctEntry_pmCall upt_rec [of 2] upt_rec [of 3])
  from applyRules_frame [OF v s] s show ?thesis by simp
qed

section \<open>Evaluation of the parser\<close>

lemmas char_defs = isSpace_def isDigit_def isWordChar_def isUpper_def isNameChar_def
  isLineTerminator_def digitVal_def

lemmas pattern_defs = trim_def split_def substringAfter_def parseFloat_def payPeriodMatch_def
  reportDateAt_def dateAt_def headerTail_sl_def employeeMatch_sl_def jobCodeMatch_sl_def
  hoursAfterDate_def anyHoursAt_def headerTail_ml_def employeeMatch_ml_def jobCodeMatch_ml_def
  wholeDate_def wholeHours_def partOr_def

lemmas scan_defs = initialState_def saveEntries_def readMarkers_def startEmployee_def
  endEmployee_def processLine_sl_def processLine_ml_def lookAhead_def
  parseEmployeeData_sl_def parseEmployeeData_ml_def

lemma sortedLaborRates:
  "sortByLengthDesc laborRates =
     [''Sch MN PM Tech'', ''SCH_MN PMTECH'', ''WN MN PM TECH'', ''SCH_MNTECH'',
      ''SCH_PMTECH'', ''WN MN TECH'', ''WN PM TECH'', ''MN PMTECH'', ''SCHTECHNB'',
      ''WN TECHNB'', ''MN PMTECH'', ''SCH_TECH'', ''WN TECH'', ''TechOT'', ''TechNB'',
      ''PMTECH'', ''MNTech'', ''Tech'', ''PREM'', ''SHOP'']"
  by (simp add: sortByLengthDesc_def laborRates_def)

lemmas entry_defs = parseTimeEntry_def sortedLaborRates payTypes_def costCodes_def
  categories_def

section \<open>Lines of a text\<close>

lemma splitLines_nonempty: "splitLines s \<noteq> []"
  by (induction s) (auto split: list.splits)

lemma splitLines_append: "splitLines (a @ CHR 0x0A # b) = splitLines a @ splitLines b"
proof (induction a)
  case Nil
  show ?case by simp
next
  case (Cons c cs)
  obtain l ls where s: "splitLines cs = l # ls"
    using splitLines_nonempty [of cs] by (cases "splitLines cs") auto
  show ?case using Cons s by simp
qed

lemma splitLines_line: "CHR 0x0A \<notin> set l \<Longrightarrow> splitLines l = [l]"
  by (induction l) auto

section \<open>The turns of the loop, one line per entry\<close>

lemma readMarkers_keeps [simp]:
  "currentEmployee (readMarkers t st) = currentEmployee st"
  "employeeEntries (readMarkers t st) = employeeEntries st"
  "allEntries (readMarkers t st) = allEntries st"
  by (simp_all add: readMarkers_def Let_def split: option.splits)

lemma lazyName_Nil [simp]: "lazyName tail acc [] = None"
  by simp

lemma employeeMatch_sl_nonempty: "employeeMatch_sl t = Some m \<Longrightarrow> t \<noteq> []"
  by (auto simp: employeeMatch_sl_def)

lemma processLine_sl_header:
  "employeeMatch_sl (trim l) = Some m \<Longrightarrow>
   processLine_sl l st = (startEmployee m (readMarkers (trim l) st), False)"
  using employeeMatch_sl_nonempty [of "trim l" m]
  by (simp add: processLine_sl_def Let_def)

lemma processLine_sl_entry:
  "entryLine_sl l = Some e \<Longrightarrow> currentEmployee st \<noteq> None \<Longrightarrow>
   processLine_sl l st =
     ((readMarkers (trim l) st)\<lparr>employeeEntries := employeeEntries st @ [e]\<rparr>, False)"
  by (auto simp add: entryLine_sl_def processLine_sl_def Let_def split: if_splits option.splits)

lemma includes_nonempty: "includesStr t (c # cs) \<Longrightarrow> t \<noteq> []"
  by auto

lemma processLine_sl_totals:
  "totalsLine_sl l \<Longrightarrow>
   processLine_sl l st = (endEmployee (readMarkers (trim l) st), False)"
  by (auto simp add: totalsLine_sl_def processLine_sl_def Let_def split: option.splits)

lemma processLine_sl_stop:
  "includesStr (trim l) ''Report Totals'' \<Longrightarrow> employeeMatch_sl (trim l) = None \<Longrightarrow>
   snd (processLine_sl l st) = True"
  by (auto simp add: processLine_sl_def Let_def split: option.splits)

lemma scanLines_sl_stop:
  "includesStr (trim l) ''Report Totals'' \<Longrightarrow> employeeMatch_sl (trim l) = None \<Longrightarrow>
   scanLines_sl (pre @ l # post) st = scanLines_sl (pre @ [l]) st"
proof (induction pre arbitrary: st)
  case Nil
  then show ?case
    using processLine_sl_stop [of l st] by (simp add: split_beta)
next
  case (Cons a pre)
  then show ?case by (simp add: split_beta)
qed

section \<open>Two employees, two entries each\<close>

lemma header_john: "employeeMatch_sl (trim ''John Smith - 101'') = Some (''John Smith'', ''101'')"
  by (simp add: pattern_defs char_defs Let_def)

lemma header_jane: "employeeMatch_sl (trim ''Jane Doe - 202'') = Some (''Jane Doe'', ''202'')"
  by (simp add: pattern_defs char_defs Let_def)

lemma trim_names:
  "trim ''John Smith'' = ''John Smith''" "trim ''101'' = ''101''"
  "trim ''Jane Doe'' = ''Jane Doe''" "trim ''202'' = ''202''"
  by (simp_all add: trim_def char_defs)

lemma entryLine_sl_fields:
  "entryLine_sl l = Some e \<Longrightarrow> payPeriodId e = None \<and> reportDate e = None \<and> 0 < hours e"
  by (auto simp add: entryLine_sl_def parseTimeEntry_def Let_def split: if_splits option.splits)

lemma entryLine_sl_no_feed: "entryLine_sl l = Some e \<Longrightarrow> CHR 0x0A \<notin> set l"
  by (auto simp add: entryLine_sl_def split: if_splits)

lemma unstamped_saved:
  "payPeriodId e = None \<Longrightarrow> reportDate e = None \<Longrightarrow>
   unstamped (e\<lparr>employeeName := n, employeeId := i, payPeriodId := p, reportDate := r\<rparr>) =
     e\<lparr>employeeName := n, employeeId := i\<rparr>"
  by (simp add: unstamped_def)

text \<open>
  The earlier loop (lines 21 to 173), which hands every dated line to
  \<^verbatim>\<open>parseTimeEntry\<close>, groups entries of one line by employee. A text made of the
  header \<open>John Smith - 101\<close>, two valid time-entry lines of the one-line layout and a
  line of employee totals, then the header \<open>Jane Doe - 202\<close>, two more such lines
  and a line of employee totals, is parsed into exactly four entries, in the order of
  their lines: the entries of the first two lines with employee 101, those of the last
  two with employee 202. The entries are compared without the pay period and the report
  date they are saved with.
\<close>

lemma parseEmployeeData_sl_groups_employees:
  assumes "entryLine_sl l1 = Some e1" and "entryLine_sl l2 = Some e2"
    and "entryLine_sl l3 = Some e3" and "entryLine_sl l4 = Some e4"
    and "totalsLine_sl t1" and "totalsLine_sl t2"
  shows "map unstamped
           (parseEmployeeData_sl
              (''John Smith - 101'' @ [CHR 0x0A] @ l1 @ [CHR 0x0A] @ l2 @ [CHR 0x0A] @ t1 @
               [CHR 0x0A] @
               ''Jane Doe - 202'' @ [CHR 0x0A] @ l3 @ [CHR 0x0A] @ l4 @ [CHR 0x0A] @ t2)) =
         [e1\<lparr>employeeName := ''John Smith'', employeeId := ''101''\<rparr>,
          e2\<lparr>employeeName := ''John Smith'', employeeId := ''101''\<rparr>,
          e3\<lparr>employeeName := ''Jane Doe'', employeeId := ''202''\<rparr>,
          e4\<lparr>employeeName := ''Jane Doe'', employeeId := ''202''\<rparr>]"
proof -
  have nf: "CHR 0x0A \<notin> set l1" "CHR 0x0A \<notin> set l2" "CHR 0x0A \<notin> set l3" "CHR 0x0A \<notin> set l4"
    "CHR 0x0A \<notin> set t1" "CHR 0x0A \<notin> set t2"
    using assms by (simp_all add: entryLine_sl_no_feed totalsLine_sl_def)
  have h: "CHR 0x0A \<notin> set ''John Smith - 101''" "CHR 0x0A \<notin> set ''Jane Doe - 202''"
    by simp_all
  have lines: "splitLines
      (''John Smith - 101'' @ [CHR 0x0A] @ l1 @ [CHR 0x0A] @ l2 @ [CHR 0x0A] @ t1 @ [CHR 0x0A] @
       ''Jane Doe - 202'' @ [CHR 0x0A] @ l3 @ [CHR 0x0A] @ l4 @ [CHR 0x0A] @ t2) =
      [''John Smith - 101'', l1, l2, t1, ''Jane Doe - 202'', l3, l4, t2]"
    using splitLines_append [of "''John Smith - 101''"] splitLines_append [of l1]
      splitLines_append [of l2] splitLines_append [of t1]
      splitLines_append [of "''Jane Doe - 202''"] splitLines_append [of l3]
      splitLines_append [of l4] splitLines_line [OF h(1)] splitLines_line [OF h(2)]
      splitLines_line [OF nf(1)] splitLines_line [OF nf(2)] splitLines_line [OF nf(3)]
      splitLines_line [OF nf(4)] splitLines_line [OF nf(5)] splitLines_line [OF nf(6)]
    by simp
  have f: "payPeriodId e1 = None" "reportDate e1 = None" "payPeriodId e2 = None"
    "reportDate e2 = None" "payPeriodId e3 = None" "reportDate e3 = None"
    "payPeriodId e4 = None" "reportDate e4 = None"
    using assms entryLine_sl_fields by blast+
  show ?thesis
    unfolding parseEmployeeData_sl_def lines
    by (simp add: processLine_sl_header [OF header_john] processLine_sl_header [OF header_jane]
        processLine_sl_entry [OF assms(1)] processLine_sl_entry [OF assms(2)]
        processLine_sl_entry [OF assms(3)] processLine_sl_entry [OF assms(4)]
        processLine_sl_totals [OF assms(5)] processLine_sl_totals [OF assms(6)]
        startEmployee_def endEmployee_def saveEntries_def initialState_def trim_names
        unstamped_saved f)
qed


lemma groupingText_entryLines:
  "entryLine_sl ''(J1)ACME 07/28/2025 1.50 - Regular - Tech - SERVICE - DirLab - Repair'' =
     Some \<lparr>employeeName = [], employeeId = [], jobCode = ''J1'', jobDescription = ''ACME'',
           date = ''07/28/2025'', hours = 3 / 2, payType = ''Regular'', laborRate = ''Tech'',
           costCode = ''SERVICE'', costCategory = ''DirLab'', description = ''Repair'',
           payPeriodId = None, reportDate = None,
           originalLine =
             ''(J1)ACME 07/28/2025 1.50 - Regular - Tech - SERVICE - DirLab - Repair''\<rparr>"
  "entryLine_sl ''(J2)ACME 07/29/2025 2.00 - Overtime - TechOT - SERVICE - DirLab - Repair'' =
     Some \<lparr>employeeName = [], employeeId = [], jobCode = ''J2'', jobDescription = ''ACME'',
           date = ''07/29/2025'', hours = 2, payType = ''Overtime'', laborRate = ''TechOT'',
           costCode = ''SERVICE'', costCategory = ''DirLab'', description = ''Repair'',
           payPeriodId = None, reportDate = None,
           originalLine =
             ''(J2)ACME 07/29/2025 2.00 - Overtime - TechOT - SERVICE - DirLab - Repair''\<rparr>"
  "entryLine_sl ''(J3)BETA 07/28/2025 8.00 - Regular - PMTECH - PM - DirLab - Maintenance'' =
     Some \<lparr>employeeName = [], employeeId = [], jobCode = ''J3'', jobDescription = ''BETA'',
           date = ''07/28/2025'', hours = 8, payType = ''Regular'', laborRate = ''PMTECH'',
           costCode = ''PM'', costCategory = ''DirLab'', description = ''Maintenance'',
           payPeriodId = None, reportDate = None,
           originalLine =
             ''(J3)BETA 07/28/2025 8.00 - Regular - PMTECH - PM - DirLab - Maintenance''\<rparr>"
  "entryLine_sl ''(J4)BETA 07/30/2025 4.25 - Regular - Tech - INSTALL - DirLab - Install'' =
     Some \<lparr>employeeName = [], employeeId = [], jobCode = ''J4'', jobDescription = ''BETA'',
           date = ''07/30/2025'', hours = 17 / 4, payType = ''Regular'', laborRate = ''Tech'',
           costCode = ''INSTALL'', costCategory = ''DirLab'', description = ''Install'',
           payPeriodId = None, reportDate = None,
           originalLine =
             ''(J4)BETA 07/30/2025 4.25 - Regular - Tech - INSTALL - DirLab - Install''\<rparr>"
  by (simp_all add: entryLine_sl_def pattern_defs char_defs entry_defs Let_def)

lemma groupingText_totalsLines:
  "totalsLine_sl ''Employee Totals 3.50''" "totalsLine_sl ''Employee Totals 12.25''"
  by (simp_all add: totalsLine_sl_def pattern_defs char_defs Let_def)

text \<open>The text of the grouping property, with its two totals lines and four entries.\<close>

lemma parseEmployeeData_sl_groupingText:
  "length (parseEmployeeData_sl groupingText) = 4 \<and>
   map employeeId (parseEmployeeData_sl groupingText) = [''101'', ''101'', ''202'', ''202''] \<and>
   map jobCode (parseEmployeeData_sl groupingText) = [''J1'', ''J2'', ''J3'', ''J4'']"
proof -
  have u: "employeeId e = employeeId (unstamped e)" "jobCode e = jobCode (unstamped e)" for e
    by (simp_all add: unstamped_def)
  have "map employeeId (map unstamped (parseEmployeeData_sl groupingText)) =
          [''101'', ''101'', ''202'', ''202''] \<and>
        map jobCode (map unstamped (parseEmployeeData_sl groupingText)) =
          [''J1'', ''J2'', ''J3'', ''J4'']"
    unfolding groupingText_def
    by (simp only: parseEmployeeData_sl_groups_employees [OF groupingText_entryLines
          groupingText_totalsLines]) simp
  then have m: "map employeeId (parseEmployeeData_sl groupingText) =
          [''101'', ''101'', ''202'', ''202''] \<and>
        map jobCode (parseEmployeeData_sl groupingText) = [''J1'', ''J2'', ''J3'', ''J4'']"
    by (simp add: comp_def u [symmetric])
  then have "length (parseEmployeeData_sl groupingText) =
      length [''101'', ''101'', ''202'', ''202'']"
    by (metis length_map)
  with m show ?thesis by simp
qed



section \<open>Hours\<close>

lemma parseTimeEntry_hours: "parseTimeEntry line d = Some e \<Longrightarrow> 0 < hours e"
  by (auto simp add: parseTimeEntry_def Let_def split: if_splits)

lemma saveEntries_hours:
  "hoursPositive st \<Longrightarrow> list_all (\<lambda>e. 0 < hours e) (saveEntries st)"
  by (auto simp add: hoursPositive_def saveEntries_def list_all_iff split: option.splits)

lemma readMarkers_hours: "hoursPositive (readMarkers t st) = hoursPositive st"
  by (simp add: hoursPositive_def)

lemma processLine_sl_hours:
  "hoursPositive st \<Longrightarrow> hoursPositive (fst (processLine_sl l st))"
proof -
  assume a: "hoursPositive st"
  then have r: "hoursPositive (readMarkers (trim l) st)"
    by (simp add: readMarkers_hours)
  have s: "list_all (\<lambda>e. 0 < hours e) (saveEntries (readMarkers (trim l) st))"
    using r by (rule saveEntries_hours)
  have s': "list_all (\<lambda>e. 0 < hours e)
      (saveEntries ((readMarkers (trim l) st)\<lparr>employeeEntries := employeeEntries st @ [e]\<rparr>))"
    if "0 < hours e" for e
    using r that by (intro saveEntries_hours) (simp add: hoursPositive_def)
  show ?thesis
    using a r s s' parseTimeEntry_hours
    by (auto simp add: processLine_sl_def Let_def startEmployee_def endEmployee_def
        hoursPositive_def split: option.splits)
qed

lemma scanLines_sl_hours:
  "hoursPositive st \<Longrightarrow> hoursPositive (scanLines_sl ls st)"
proof (induction ls arbitrary: st)
  case Nil
  then show ?case by simp
next
  case (Cons l ls)
  then show ?case
    using processLine_sl_hours [of st l] by (auto simp add: split_beta)
qed

text \<open>Every entry read from one line has hours above zero.\<close>

lemma parseEmployeeData_sl_hours:
  "e \<in> set (parseEmployeeData_sl text) \<Longrightarrow> 0 < hours e"
proof -
  have "hoursPositive initialState"
    by (simp add: hoursPositive_def initialState_def)
  then have "list_all (\<lambda>e. 0 < hours e) (parseEmployeeData_sl text)"
    unfolding parseEmployeeData_sl_def by (intro saveEntries_hours scanLines_sl_hours)
  then show "e \<in> set (parseEmployeeData_sl text) \<Longrightarrow> 0 < hours e"
    by (simp add: list_all_iff)
qed

text \<open>
  Claim C2. An entry is to be kept only when its hours are above zero. The entry read
  from four lines is pushed without that test: with the hours line \<open>0.00\<close> the
  parser returns an entry whose hours are zero.
\<close>

theorem four_line_entry_keeps_zero_hours:
  "parseEmployeeData_ml zeroHoursText =
     [\<lparr>employeeName = ''John Smith'', employeeId = ''101'', jobCode = ''J1'',
       jobDescription = ''ACME'', date = ''07/28/2025'', hours = 0, payType = ''Regular'',
       laborRate = ''Tech'', costCode = ''SERVICE'', costCategory = ''DirLab'',
       description = ''Repair'', payPeriodId = None, reportDate = None,
       originalLine = ''(J1)ACME 07/28/2025 0.00 Regular - Tech - SERVICE - DirLab - Repair''\<rparr>]"
  by (simp add: zeroHoursText_def scan_defs pattern_defs char_defs Let_def)

section \<open>Report totals\<close>

text \<open>
  Claim C8, as stated, fails. A line \<open>Report Totals - 5\<close> contains the words and
  has the form of an employee header: both loops start an employee named
  \<open>Report Totals\<close> there and go on to the next line before they reach the test for
  the end of the report, so the entry after it is parsed and returned. In the loop that
  reads four lines per entry, a line with the words that opens a job code takes the
  three lines after it as its entry before the loop ends.
\<close>

theorem header_shaped_report_totals:
  "includesStr (splitLines totalsHeaderText_sl ! 1) ''Report Totals'' \<and>
   map originalLine (parseEmployeeData_sl totalsHeaderText_sl) =
     [splitLines totalsHeaderText_sl ! 2] \<and>
   includesStr (splitLines totalsHeaderText_ml ! 1) ''Report Totals'' \<and>
   map (\<lambda>e. (employeeName e, jobCode e)) (parseEmployeeData_ml totalsHeaderText_ml) =
     [(''Report Totals'', ''J9'')] \<and>
   includesStr (splitLines totalsJobText_ml ! 1) ''Report Totals'' \<and>
   map (\<lambda>e. (date e, hours e)) (parseEmployeeData_ml totalsJobText_ml) =
     [(splitLines totalsJobText_ml ! 2, 3 / 2)]"
proof (intro conjI)
  show "includesStr (splitLines totalsHeaderText_sl ! 1) ''Report Totals''"
    by (simp add: totalsHeaderText_sl_def)
  show "map originalLine (parseEmployeeData_sl totalsHeaderText_sl) =
     [splitLines totalsHeaderText_sl ! 2]"
    by (simp add: totalsHeaderText_sl_def scan_defs pattern_defs char_defs entry_defs Let_def)
  show "includesStr (splitLines totalsHeaderText_ml ! 1) ''Report Totals''"
    by (simp add: totalsHeaderText_ml_def)
  show "map (\<lambda>e. (employeeName e, jobCode e)) (parseEmployeeData_ml totalsHeaderText_ml) =
     [(''Report Totals'', ''J9'')]"
    by (simp add: totalsHeaderText_ml_def scan_defs pattern_defs char_defs Let_def)
  show "includesStr (splitLines totalsJobText_ml ! 1) ''Report Totals''"
    by (simp add: totalsJobText_ml_def)
  show "map (\<lambda>e. (date e, hours e)) (parseEmployeeData_ml totalsJobText_ml) =
     [(splitLines totalsJobText_ml ! 2, 3 / 2)]"
    by (simp add: totalsJobText_ml_def scan_defs pattern_defs char_defs Let_def)
qed

lemma scanLines_ml_stop:
  assumes "includesStr (trim l) ''Report Totals''" and "employeeMatch_ml (trim l) = None"
    and "jobCodeMatch_ml (trim l) = None"
  shows "scanLines_ml (l # rest) st = scanLines_ml [l] st"
  using assms by (auto simp add: processLine_ml_def Let_def split: option.splits)

lemma splitLines_no_feed: "l \<in> set (splitLines s) \<Longrightarrow> CHR 0x0A \<notin> set l"
proof (induction s arbitrary: l)
  case Nil
  then show ?case by simp
next
  case (Cons c cs)
  obtain x xs where s: "splitLines cs = x # xs"
    using splitLines_nonempty [of cs] by (cases "splitLines cs") auto
  show ?case
  proof (cases "c = CHR 0x0A")
    case True
    then show ?thesis using Cons by auto
  next
    case False
    then have "l = c # x \<or> l \<in> set xs" using Cons.prems s by auto
    then show ?thesis
      using Cons.IH [of x] Cons.IH [of l] s False by auto
  qed
qed

lemma splitLines_join:
  "ls \<noteq> [] \<Longrightarrow> \<forall>l \<in> set ls. CHR 0x0A \<notin> set l \<Longrightarrow> splitLines (join [CHR 0x0A] ls) = ls"
proof (induction "[CHR 0x0A]" ls rule: join.induct)
  case 1
  then show ?case by simp
next
  case (2 x)
  then show ?case by (simp add: splitLines_line)
next
  case (3 x y ys)
  then show ?case
    using splitLines_append [of x "join [CHR 0x0A] (y # ys)"] by (simp add: splitLines_line)
qed

text \<open>
  Claim C8, amended. Scanning stops at a line that contains \<open>Report Totals\<close> and
  is not an employee header. In the loop that reads one line per entry, the result for a
  text with such a line is the result for the text cut after that line: no later line
  produces an entry. In the loop that reads four lines per entry, when the loop is at
  such a line and the line opens no job code, it ends there whatever the lines that
  follow and whatever the state.
\<close>

theorem report_totals_stops_scan:
  "(splitLines text = pre @ l # post \<and> includesStr (trim l) ''Report Totals'' \<and>
    employeeMatch_sl (trim l) = None \<longrightarrow>
      parseEmployeeData_sl text = parseEmployeeData_sl (join [CHR 0x0A] (pre @ [l]))) \<and>
   (includesStr (trim l) ''Report Totals'' \<and> employeeMatch_ml (trim l) = None \<and>
    jobCodeMatch_ml (trim l) = None \<longrightarrow>
      scanLines_ml (l # rest) st = scanLines_ml [l] st)"
proof (intro conjI impI)
  assume a: "splitLines text = pre @ l # post \<and> includesStr (trim l) ''Report Totals'' \<and>
    employeeMatch_sl (trim l) = None"
  then have "\<forall>x \<in> set (pre @ [l]). CHR 0x0A \<notin> set x"
    using splitLines_no_feed [of _ "text"] by auto
  then have "splitLines (join [CHR 0x0A] (pre @ [l])) = pre @ [l]"
    by (intro splitLines_join) simp_all
  then show "parseEmployeeData_sl text = parseEmployeeData_sl (join [CHR 0x0A] (pre @ [l]))"
    using a scanLines_sl_stop [of l pre post initialState]
    by (simp add: parseEmployeeData_sl_def)
next
  assume "includesStr (trim l) ''Report Totals'' \<and> employeeMatch_ml (trim l) = None \<and>
    jobCodeMatch_ml (trim l) = None"
  then show "scanLines_ml (l # rest) st = scanLines_ml [l] st"
    by (rule_tac scanLines_ml_stop) simp_all
qed

text \<open>
  A line of report totals followed by another employee with an entry: the one-line parser
  returns the entry before the totals only, and the four-line loop ends at the totals.
\<close>

theorem report_totals_stops_scan_witness:
  "map jobCode (parseEmployeeData_sl truncatedText_sl) = [''J1''] \<and>
   scanLines_ml (''Report Totals 1.50'' # linesAfterTotals_ml) initialState =
     scanLines_ml [''Report Totals 1.50''] initialState"
proof -
  let ?l = "''Report Totals 1.50''"
  let ?pre = "[''John Smith - 101'',
    ''(J1)ACME 07/28/2025 1.50 - Regular - Tech - SERVICE - DirLab - Repair'']"
  let ?post = "[''Jane Doe - 202'',
    ''(J3)BETA 07/28/2025 8.00 - Regular - PMTECH - PM - DirLab - Maintenance'']"
  have s: "splitLines truncatedText_sl = ?pre @ ?l # ?post"
    by (simp add: truncatedText_sl_def)
  have c: "includesStr (trim ?l) ''Report Totals''" "employeeMatch_sl (trim ?l) = None"
    "employeeMatch_ml (trim ?l) = None" "jobCodeMatch_ml (trim ?l) = None"
    by (simp_all add: pattern_defs char_defs Let_def)
  have p: "map jobCode (parseEmployeeData_sl (join [CHR 0x0A] (?pre @ [?l]))) = [''J1'']"
    by (simp add: scan_defs pattern_defs char_defs entry_defs Let_def)
  from report_totals_stops_scan [of truncatedText_sl ?pre ?l ?post linesAfterTotals_ml
      initialState] s c p
  show ?thesis by simp
qed

end
